theory Spec2Isabelle
  imports Main "HOL-Library.Word"
begin

unbundle bit_operations_syntax

section \<open>Errors\<close>

text \<open>
  The library reports failure by throwing.  \<open>user_error\<close> carries its message,
  \<open>assertion_error\<close> is what \<open>GDK_RUNTIME_ASSERT\<close> throws, \<open>wally_error\<close> is what
  \<open>GDK_VERIFY\<close> throws when a libwally call fails, \<open>json_error\<close> is an exception of the
  JSON container (a missing key, a value of the wrong type), and \<open>upstream_error\<close>
  stands for anything thrown by a collaborator outside these sources.
\<close>

datatype error =
    user_error string
  | assertion_error
  | wally_error
  | json_error
  | upstream_error

type_synonym 'a result = "error + 'a"

definition bind_result :: "'a result \<Rightarrow> ('a \<Rightarrow> 'b result) \<Rightarrow> 'b result" where
  "bind_result m f = (case m of Inl e \<Rightarrow> Inl e | Inr x \<Rightarrow> f x)"

type_synonym u32 = "32 word"
type_synonym u64 = "64 word"
type_synonym byte = "8 word"

section \<open>JSON values\<close>

text \<open>
  \<open>nlohmann::json\<close> values.  An object is a finite map from keys to values; numbers
  are integers here (the code under study stores no fractions).
\<close>

datatype json =
    JNull
  | JBool bool
  | JNum int
  | JStr string
  | JArr "json list"
  | JObj "string \<Rightarrow> json option"

type_synonym jobj = "string \<Rightarrow> json option"

text \<open>
  The container's own operations, as the library documents them: \<open>empty()\<close> is true of
  null and of an object or array without elements; \<open>contains\<close> is false of anything
  that is not an object; \<open>at\<close> throws when the key is absent or the value is not an
  object; \<open>value(key, default)\<close> throws on anything that is not an object;
  \<open>operator[]\<close> turns null into an object before it assigns; \<open>erase(key)\<close> throws
  \<open>type_error\<close> 307 on anything that is not an object, null included.
\<close>

fun json_empty :: "json \<Rightarrow> bool" where
  "json_empty JNull = True"
| "json_empty (JObj m) = (m = Map.empty)"
| "json_empty (JArr xs) = (xs = [])"
| "json_empty _ = False"

fun json_contains :: "json \<Rightarrow> string \<Rightarrow> bool" where
  "json_contains (JObj m) k = (m k \<noteq> None)"
| "json_contains _ k = False"

fun json_at :: "json \<Rightarrow> string \<Rightarrow> json result" where
  "json_at (JObj m) k = (case m k of Some v \<Rightarrow> Inr v | None \<Rightarrow> Inl json_error)"
| "json_at _ k = Inl json_error"

fun json_value :: "json \<Rightarrow> string \<Rightarrow> json \<Rightarrow> json result" where
  "json_value (JObj m) k dflt = (case m k of Some v \<Rightarrow> Inr v | None \<Rightarrow> Inr dflt)"
| "json_value _ k dflt = Inl json_error"

fun json_set :: "json \<Rightarrow> string \<Rightarrow> json \<Rightarrow> json result" where
  "json_set JNull k v = Inr (JObj [k \<mapsto> v])"
| "json_set (JObj m) k v = Inr (JObj (m(k \<mapsto> v)))"
| "json_set _ k v = Inl json_error"

fun json_erase :: "json \<Rightarrow> string \<Rightarrow> json result" where
  "json_erase (JObj m) k = Inr (JObj (m(k := None)))"
| "json_erase _ k = Inl json_error"

text \<open>
  Modelled from the spec: the accessors of \<open>json_utils.hpp\<close>, a header that is not part
  of the sources.  \<open>j_str\<close> and \<open>j_array\<close> give the value under a key if there is one;
  the \<open>ref\<close> accessors demand it; the \<open>or\<close> accessors fall back to a default when the
  key is absent.  A value of the wrong type is the container's type error.
\<close>

fun j_str :: "json \<Rightarrow> string \<Rightarrow> string option result" where
  "j_str (JObj m) k =
     (case m k of None \<Rightarrow> Inr None | Some (JStr s) \<Rightarrow> Inr (Some s) | Some _ \<Rightarrow> Inl json_error)"
| "j_str JNull k = Inr None"
| "j_str _ k = Inl json_error"

fun j_array :: "json \<Rightarrow> string \<Rightarrow> json list option result" where
  "j_array (JObj m) k =
     (case m k of None \<Rightarrow> Inr None | Some (JArr xs) \<Rightarrow> Inr (Some xs) | Some _ \<Rightarrow> Inl json_error)"
| "j_array JNull k = Inr None"
| "j_array _ k = Inl json_error"

definition j_strref :: "json \<Rightarrow> string \<Rightarrow> string result" where
  "j_strref j k =
     bind_result (json_at j k) (\<lambda>v. case v of JStr s \<Rightarrow> Inr s | _ \<Rightarrow> Inl json_error)"

definition j_str_or_empty :: "json \<Rightarrow> string \<Rightarrow> string result" where
  "j_str_or_empty j k =
     bind_result (j_str j k) (\<lambda>v. Inr (case v of None \<Rightarrow> [] | Some s \<Rightarrow> s))"

text \<open>
  Modelled from the spec: \<open>json_add_if_missing\<close> (also of \<open>json_utils.hpp\<close>) stores the
  value when the key is absent, or holds null and \<open>overwrite_null\<close> is set.
\<close>

fun json_add_if_missing :: "json \<Rightarrow> string \<Rightarrow> json \<Rightarrow> bool \<Rightarrow> json result" where
  "json_add_if_missing (JObj m) k v overwrite_null =
     (case m k of
        None \<Rightarrow> Inr (JObj (m(k \<mapsto> v)))
      | Some old \<Rightarrow> if old = JNull \<and> overwrite_null then Inr (JObj (m(k \<mapsto> v))) else Inr (JObj m))"
| "json_add_if_missing JNull k v overwrite_null = Inr (JObj [k \<mapsto> v])"
| "json_add_if_missing _ k v overwrite_null = Inl json_error"

section \<open>The signer (signer.cpp)\<close>

subsection \<open>Primitives of libwally and of the library's own crypto helpers\<close>

text \<open>
  Modelled from the spec: \<open>harden\<close> and \<open>is_hardened\<close> are declared in a header that
  is not part of the sources; a path component is hardened when its top bit is set
  (the spec writes such components \<open>84h\<close>).
\<close>

definition harden :: "u32 \<Rightarrow> u32" where
  "harden x = x OR 0x80000000"

definition is_hardened :: "u32 \<Rightarrow> bool" where
  "is_hardened x = (x AND 0x80000000 \<noteq> 0)"

text \<open>Constants of libwally.\<close>

definition BIP32_FLAG_KEY_PRIVATE :: u32 where "BIP32_FLAG_KEY_PRIVATE = 0"
definition BIP32_FLAG_KEY_PUBLIC :: u32 where "BIP32_FLAG_KEY_PUBLIC = 1"
definition BIP32_FLAG_SKIP_HASH :: u32 where "BIP32_FLAG_SKIP_HASH = 2"
definition BIP32_VER_MAIN_PRIVATE :: u32 where "BIP32_VER_MAIN_PRIVATE = 0x0488ADE4"
definition BIP32_VER_TEST_PRIVATE :: u32 where "BIP32_VER_TEST_PRIVATE = 0x04358394"
definition SHA512_LEN :: nat where "SHA512_LEN = 64"
definition HMAC_SHA256_LEN :: nat where "HMAC_SHA256_LEN = 32"

text \<open>
  The hex codec of libwally: \<open>b2h\<close> writes two lower-case digits per byte, \<open>h2b\<close> reads
  digits of either case and throws on a string of odd length or with another character.
  \<open>b2h_rev\<close> writes the bytes in reverse order.
\<close>

definition hex_digit :: "char \<Rightarrow> nat option" where
  "hex_digit c =
     (let n = (of_char c :: nat) in
      if 48 \<le> n \<and> n \<le> 57 then Some (n - 48)
      else if 97 \<le> n \<and> n \<le> 102 then Some (n - 87)
      else if 65 \<le> n \<and> n \<le> 70 then Some (n - 55)
      else None)"

fun h2b :: "string \<Rightarrow> byte list result" where
  "h2b [] = Inr []"
| "h2b [c] = Inl wally_error"
| "h2b (c1 # c2 # cs) =
     (case (hex_digit c1, hex_digit c2) of
        (Some a, Some b) \<Rightarrow> bind_result (h2b cs) (\<lambda>bs. Inr (of_nat (16 * a + b) # bs))
      | _ \<Rightarrow> Inl wally_error)"

definition hex_char :: "nat \<Rightarrow> char" where
  "hex_char n = ''0123456789abcdef'' ! n"

definition b2h :: "byte list \<Rightarrow> string" where
  "b2h bs = concat (map (\<lambda>b. [hex_char (unat b div 16), hex_char (unat b mod 16)]) bs)"

definition b2h_rev :: "byte list \<Rightarrow> string" where
  "b2h_rev bs = b2h (rev bs)"

text \<open>
  The primitives the signer calls, over an abstract type \<open>'k\<close> of extended keys:
  BIP32 derivation along a path (it fails, for instance, on a hardened step from a
  public key), parsing a base58 xpub, serialising a key's public part to base58
  (\<open>bip32_key_serialize\<close> with \<open>BIP32_FLAG_KEY_PUBLIC\<close>, then
  \<open>base58check_from_bytes\<close>), the master key and the SLIP-77 blinding key of a seed,
  BIP39 and mnemonic decryption.
\<close>

record 'k crypto =
  bip32_key_from_parent_path_alloc :: "'k \<Rightarrow> u32 list \<Rightarrow> u32 \<Rightarrow> 'k result"
  bip32_public_key_from_bip32_xpub :: "string \<Rightarrow> 'k result"
  bip32_xpub_of :: "'k \<Rightarrow> string"
  bip32_key_from_seed_alloc :: "byte list \<Rightarrow> u32 \<Rightarrow> u32 \<Rightarrow> 'k result"
  asset_blinding_key_from_seed :: "byte list \<Rightarrow> byte list"
  bip39_mnemonic_to_seed :: "string \<Rightarrow> string \<Rightarrow> byte list result"
  decrypt_mnemonic :: "string \<Rightarrow> string \<Rightarrow> string result"

definition derive :: "'k crypto \<Rightarrow> 'k \<Rightarrow> u32 list \<Rightarrow> u32 \<Rightarrow> 'k result" where
  "derive w hdkey path flags =
     bip32_key_from_parent_path_alloc w hdkey path (flags OR BIP32_FLAG_SKIP_HASH)"

subsection \<open>Credentials and device descriptor\<close>

text \<open>\<open>get_credentials_json\<close>: the sanitised credentials a signer keeps.\<close>

definition mnemonic_credentials ::
  "'k crypto \<Rightarrow> json \<Rightarrow> string \<Rightarrow> string option \<Rightarrow> json result" where
  "mnemonic_credentials w credentials user_mnemonic bip39_passphrase =
     bind_result (j_str credentials ''password'')
       (\<lambda>password.
          bind_result
            (case password of
               None \<Rightarrow> Inr user_mnemonic
             | Some pw \<Rightarrow>
                 if bip39_passphrase \<noteq> None then Inl assertion_error
                 else decrypt_mnemonic w user_mnemonic pw)
            (\<lambda>mnemonic.
               let passphrase = (case bip39_passphrase of None \<Rightarrow> [] | Some p \<Rightarrow> p) in
               bind_result (bip39_mnemonic_to_seed w mnemonic passphrase)
                 (\<lambda>seed_bytes.
                    let ret = [''mnemonic'' \<mapsto> JStr mnemonic, ''seed'' \<mapsto> JStr (b2h seed_bytes)] in
                    Inr (JObj (if passphrase \<noteq> []
                               then ret(''bip39_passphrase'' \<mapsto> JStr passphrase)
                               else ret)))))"

definition descriptor_credentials :: "json \<Rightarrow> json result" where
  "descriptor_credentials credentials =
     bind_result (j_array credentials ''slip132_extended_pubkeys'')
       (\<lambda>slip132_pubkeys.
          bind_result (j_array credentials ''core_descriptors'')
            (\<lambda>descriptors.
               case descriptors of
                 Some ds \<Rightarrow>
                   if slip132_pubkeys \<noteq> None
                   then Inl (user_error ''cannot use slip132_extended_pubkeys and core_descriptors'')
                   else Inr (JObj [''core_descriptors'' \<mapsto> JArr ds])
               | None \<Rightarrow>
                   (case slip132_pubkeys of
                      Some ks \<Rightarrow> Inr (JObj [''slip132_extended_pubkeys'' \<mapsto> JArr ks])
                    | None \<Rightarrow> Inl (user_error ''Invalid credentials''))))"

definition get_credentials_json :: "'k crypto \<Rightarrow> json \<Rightarrow> json result" where
  "get_credentials_json w credentials =
     (if json_empty credentials then Inr JNull
      else
        bind_result (j_str credentials ''username'')
          (\<lambda>username.
             case username of
               Some u \<Rightarrow>
                 bind_result (j_strref credentials ''password'')
                   (\<lambda>password. Inr (JObj [''username'' \<mapsto> JStr u, ''password'' \<mapsto> JStr password]))
             | None \<Rightarrow>
                 bind_result (j_str credentials ''mnemonic'')
                   (\<lambda>user_mnemonic.
                      case user_mnemonic of
                        None \<Rightarrow> descriptor_credentials credentials
                      | Some mnemonic \<Rightarrow>
                          bind_result (j_str credentials ''bip39_passphrase'')
                            (\<lambda>bip39_passphrase.
                               if CHR '' '' \<in> set mnemonic
                               then mnemonic_credentials w credentials mnemonic bip39_passphrase
                               else if length mnemonic = 129 \<and> last mnemonic = CHR ''X''
                               then (if bip39_passphrase \<noteq> None then Inl assertion_error
                                     else Inr (JObj [''seed'' \<mapsto> JStr (butlast mnemonic)]))
                               else descriptor_credentials credentials))))"

text \<open>
  Modelled from the spec: \<open>liquid_support_level\<close> and \<open>ae_protocol_support_level\<close> are
  enumerations declared in \<open>signer.hpp\<close>, which is not part of the sources; the spec
  lists the levels none, lite and full.  The JSON container stores an enumeration as
  its number.
\<close>

definition liquid_support_level_none :: u32 where "liquid_support_level_none = 0"
definition liquid_support_level_lite :: u32 where "liquid_support_level_lite = 1"
definition liquid_support_level_full :: u32 where "liquid_support_level_full = 2"
definition ae_protocol_support_level_none :: u32 where "ae_protocol_support_level_none = 0"

definition json_of_level :: "u32 \<Rightarrow> json" where
  "json_of_level l = JNum (uint l)"

definition GREEN_DEVICE_JSON :: json where
  "GREEN_DEVICE_JSON = JObj
     [''device_type'' \<mapsto> JStr ''green-backend'', ''supports_low_r'' \<mapsto> JBool True,
      ''supports_arbitrary_scripts'' \<mapsto> JBool True, ''supports_host_unblinding'' \<mapsto> JBool False,
      ''supports_external_blinding'' \<mapsto> JBool True,
      ''supports_liquid'' \<mapsto> json_of_level liquid_support_level_lite,
      ''supports_ae_protocol'' \<mapsto> json_of_level ae_protocol_support_level_none]"

definition WATCH_ONLY_DEVICE_JSON :: json where
  "WATCH_ONLY_DEVICE_JSON = JObj
     [''device_type'' \<mapsto> JStr ''watch-only'', ''supports_low_r'' \<mapsto> JBool True,
      ''supports_arbitrary_scripts'' \<mapsto> JBool True, ''supports_host_unblinding'' \<mapsto> JBool True,
      ''supports_external_blinding'' \<mapsto> JBool True,
      ''supports_liquid'' \<mapsto> json_of_level liquid_support_level_lite,
      ''supports_ae_protocol'' \<mapsto> json_of_level ae_protocol_support_level_none]"

definition SOFTWARE_DEVICE_JSON :: json where
  "SOFTWARE_DEVICE_JSON = JObj
     [''device_type'' \<mapsto> JStr ''software'', ''supports_low_r'' \<mapsto> JBool True,
      ''supports_arbitrary_scripts'' \<mapsto> JBool True, ''supports_host_unblinding'' \<mapsto> JBool True,
      ''supports_external_blinding'' \<mapsto> JBool True,
      ''supports_liquid'' \<mapsto> json_of_level liquid_support_level_lite,
      ''supports_ae_protocol'' \<mapsto> json_of_level ae_protocol_support_level_none]"

text \<open>\<open>get_device_json\<close>, first half: which descriptor to start from.\<close>

definition select_device_json :: "json \<Rightarrow> json \<Rightarrow> json result" where
  "select_device_json hw_device credentials =
     bind_result
       (if json_empty hw_device then Inr (JObj Map.empty)
        else json_value hw_device ''device'' (JObj Map.empty))
       (\<lambda>device.
          if \<not> json_empty device then
            (if \<not> json_empty credentials
             then Inl (user_error ''HWW/remote signer and login credentials cannot be used together'')
             else Inr device)
          else if json_contains credentials ''username''
                  \<or> json_contains credentials ''slip132_extended_pubkeys''
                  \<or> json_contains credentials ''core_descriptors''
          then Inr WATCH_ONLY_DEVICE_JSON
          else if json_contains credentials ''seed'' then Inr SOFTWARE_DEVICE_JSON
          else Inl (user_error ''Hardware device or credentials required''))"

text \<open>Second half: fill in the defaults, then check the device type; a hardware
  descriptor must carry a non-empty name.\<close>

definition add_device_defaults :: "json \<Rightarrow> json result" where
  "add_device_defaults ret0 =
     bind_result (json_add_if_missing ret0 ''supports_low_r'' (JBool False) True) (\<lambda>r1.
     bind_result (json_add_if_missing r1 ''supports_arbitrary_scripts'' (JBool False) True) (\<lambda>r2.
     bind_result (json_add_if_missing r2 ''supports_host_unblinding'' (JBool False) True) (\<lambda>r3.
     bind_result (json_add_if_missing r3 ''supports_external_blinding'' (JBool False) True) (\<lambda>r4.
     bind_result (json_add_if_missing r4 ''supports_liquid''
                    (json_of_level liquid_support_level_none) True) (\<lambda>r5.
     bind_result (json_add_if_missing r5 ''supports_ae_protocol''
                    (json_of_level ae_protocol_support_level_none) True) (\<lambda>r6.
     json_add_if_missing r6 ''device_type'' (JStr ''hardware'') True))))))"

definition require_device_name :: "json \<Rightarrow> json result" where
  "require_device_name ret =
     bind_result (json_value ret ''name'' (JStr []))
       (\<lambda>name. case name of
                  JStr n \<Rightarrow>
                    if n = []
                    then Inl (user_error ''Hardware device JSON requires a non-empty 'name' element'')
                    else Inr ret
                | _ \<Rightarrow> Inl json_error)"

definition get_device_json :: "json \<Rightarrow> json \<Rightarrow> json result" where
  "get_device_json hw_device credentials =
     bind_result (select_device_json hw_device credentials) (\<lambda>ret0.
     bind_result (add_device_defaults ret0) (\<lambda>ret.
     bind_result (j_str_or_empty ret ''device_type'') (\<lambda>device_type.
       if device_type = ''hardware'' then require_device_name ret
       else if device_type = ''green-backend'' then Inr GREEN_DEVICE_JSON
       else if device_type \<noteq> ''software'' \<and> device_type \<noteq> ''watch-only''
       then Inl (user_error (''Unknown device type '' @ device_type))
       else Inr ret)))"

subsection \<open>The signer and its construction\<close>

record network_parameters =
  is_main_net :: bool
  is_liquid :: bool
  btc_version :: nat
  is_electrum :: bool
  get_policy_asset :: string

record 'k signer =
  m_is_main_net :: bool
  m_is_liquid :: bool
  m_btc_version :: nat
  m_credentials :: json
  m_device :: json
  m_master_key :: "'k option"
  m_master_blinding_key :: "byte list option"
  m_cached_bip32_xpubs :: "u32 list \<rightharpoonup> string"

text \<open>\<open>get_liquid_support\<close>: \<open>m_device.at("supports_liquid")\<close> read as the enumeration;
  the container converts any number by a cast and throws on anything else.\<close>

definition get_liquid_support_of :: "json \<Rightarrow> u32 result" where
  "get_liquid_support_of device =
     bind_result (json_at device ''supports_liquid'')
       (\<lambda>v. case v of JNum n \<Rightarrow> Inr (word_of_int n) | _ \<Rightarrow> Inl json_error)"

definition get_liquid_support :: "'k signer \<Rightarrow> u32 result" where
  "get_liquid_support s = get_liquid_support_of (m_device s)"

text \<open>
  Modelled from the spec: \<open>res::id_the_hardware_wallet_you_are\<close> is a message id of
  \<open>ga_strings.hpp\<close>, which is not part of the sources.
\<close>

definition id_the_hardware_wallet_you_are :: string where
  "id_the_hardware_wallet_you_are = ''id_the_hardware_wallet_you_are''"

text \<open>The constructor's body after the capability check: a seed in the credentials
  gives the master key and, on Liquid, the master blinding key.\<close>

definition load_seed :: "'k crypto \<Rightarrow> 'k signer \<Rightarrow> 'k signer result" where
  "load_seed w s =
     bind_result (j_str (m_credentials s) ''seed'')
       (\<lambda>seed_hex.
          case seed_hex of
            None \<Rightarrow> Inr s
          | Some hex \<Rightarrow>
              bind_result (h2b hex)
                (\<lambda>seed.
                   let version = (if m_is_main_net s then BIP32_VER_MAIN_PRIVATE
                                  else BIP32_VER_TEST_PRIVATE) in
                   bind_result (bip32_key_from_seed_alloc w seed version 0)
                     (\<lambda>mk. Inr (s\<lparr>m_master_key := Some mk,
                                   m_master_blinding_key :=
                                     (if m_is_liquid s then Some (asset_blinding_key_from_seed w seed)
                                      else m_master_blinding_key s)\<rparr>))))"

definition signer_ctor ::
  "'k crypto \<Rightarrow> network_parameters \<Rightarrow> json \<Rightarrow> json \<Rightarrow> 'k signer result" where
  "signer_ctor w net_params hw_device credentials =
     bind_result (get_credentials_json w credentials) (\<lambda>creds.
     bind_result (get_device_json hw_device creds) (\<lambda>device.
       let s = \<lparr>m_is_main_net = is_main_net net_params, m_is_liquid = is_liquid net_params,
                m_btc_version = btc_version net_params, m_credentials = creds,
                m_device = device, m_master_key = None, m_master_blinding_key = None,
                m_cached_bip32_xpubs = Map.empty\<rparr> in
       bind_result
         (if m_is_liquid s
          then bind_result (get_liquid_support s) (\<lambda>l. Inr (l = liquid_support_level_none))
          else Inr False)
         (\<lambda>unsupported.
            if unsupported then Inl (user_error id_the_hardware_wallet_you_are)
            else load_seed w s)))"

subsection \<open>Compatibility of two signers\<close>

text \<open>\<open>get_credentials\<close>: the kept credentials, with the last 32 bytes of a known
  master blinding key added on Liquid.\<close>

definition get_credentials :: "'k signer \<Rightarrow> json result" where
  "get_credentials s =
     (if m_is_liquid s then
        (case m_master_blinding_key s of
           Some key \<Rightarrow>
             json_set (m_credentials s) ''master_blinding_key''
               (JStr (b2h (drop (length key - HMAC_SHA256_LEN) key)))
         | None \<Rightarrow> Inr (m_credentials s))
      else Inr (m_credentials s))"

definition is_compatible_with :: "'k signer \<Rightarrow> 'k signer \<Rightarrow> bool result" where
  "is_compatible_with s other =
     (if m_device s \<noteq> m_device other then Inr False
      else
        bind_result (get_credentials s) (\<lambda>c1.
        bind_result (json_erase c1 ''master_blinding_key'') (\<lambda>my_credentials.
        bind_result (get_credentials other) (\<lambda>c2.
        bind_result (json_erase c2 ''master_blinding_key'') (\<lambda>other_credentials.
          Inr (my_credentials = other_credentials))))))"

subsection \<open>The BIP32 xpub cache\<close>

text \<open>
  \<open>cache_bip32_xpub\<close>: \<open>emplace\<close> inserts only when the path is absent; the assertion
  then demands that a value already present equals the new one.  The result says
  whether the entry was inserted.
\<close>

definition cache_bip32_xpub ::
  "'k signer \<Rightarrow> u32 list \<Rightarrow> string \<Rightarrow> (bool \<times> 'k signer) result" where
  "cache_bip32_xpub s path bip32_xpub =
     (case m_cached_bip32_xpubs s path of
        None \<Rightarrow>
          Inr (True, s\<lparr>m_cached_bip32_xpubs := (m_cached_bip32_xpubs s)(path \<mapsto> bip32_xpub)\<rparr>)
      | Some old \<Rightarrow> if old = bip32_xpub then Inr (False, s) else Inl assertion_error)"

definition cache_ext_key ::
  "'k crypto \<Rightarrow> 'k signer \<Rightarrow> u32 list \<Rightarrow> 'k option \<Rightarrow> (string \<times> 'k signer) result" where
  "cache_ext_key w s path hdkey =
     (case hdkey of
        None \<Rightarrow> Inl assertion_error
      | Some k \<Rightarrow>
          (let xpub = bip32_xpub_of w k in
           bind_result (cache_bip32_xpub s path xpub) (\<lambda>(inserted, s'). Inr (xpub, s'))))"

text \<open>
  The search loop of \<open>get_bip32_xpub\<close>: starting from the full path, look the current
  parent up; stop at a hit, at the empty path or at a hardened last component;
  otherwise move the last component to the front of the child path and try the next
  shorter parent.  The result is the parent path, the child path and the cached xpub
  of the parent, if any.
\<close>

function find_parent ::
  "(u32 list \<rightharpoonup> string) \<Rightarrow> u32 list \<Rightarrow> u32 list \<Rightarrow> u32 list \<times> u32 list \<times> string option" where
  "find_parent cache parent_path child_path =
     (case cache parent_path of
        Some xpub \<Rightarrow> (parent_path, child_path, Some xpub)
      | None \<Rightarrow>
          if parent_path = [] \<or> is_hardened (last parent_path)
          then (parent_path, child_path, None)
          else find_parent cache (butlast parent_path) (last parent_path # child_path))"
  by pat_completeness auto
termination
  by (relation "measure (\<lambda>(cache, parent_path, child_path). length parent_path)") auto

declare find_parent.simps [simp del]

text \<open>
  The part of \<open>get_bip32_xpub\<close> after the search: the master xpub is encached and
  returned; a parent that is neither the root nor cached is derived from the master
  key and encached; the child is derived from the parent (or from the master key when
  the parent path is empty) and encached under the full path.
\<close>

definition derive_from_parent ::
  "'k crypto \<Rightarrow> 'k signer \<Rightarrow> u32 list \<Rightarrow> u32 list \<Rightarrow> u32 list \<Rightarrow> 'k option \<Rightarrow>
   (string \<times> 'k signer) result" where
  "derive_from_parent w s path parent_path child_path parent_key0 =
     (if path = [] then cache_ext_key w s [] (m_master_key s)
      else
        bind_result
          (if parent_path \<noteq> [] \<and> parent_key0 = None then
             (case m_master_key s of
                None \<Rightarrow> Inl assertion_error
              | Some mk \<Rightarrow>
                  bind_result (derive w mk parent_path BIP32_FLAG_KEY_PUBLIC)
                    (\<lambda>pk. bind_result (cache_ext_key w s parent_path (Some pk))
                       (\<lambda>(xpub, s'). Inr (Some pk, s'))))
           else Inr (parent_key0, s))
          (\<lambda>(parent_key, s').
             (case (case parent_key of Some k \<Rightarrow> Some k | None \<Rightarrow> m_master_key s') of
                None \<Rightarrow> Inl assertion_error
              | Some root_key \<Rightarrow>
                  if child_path = [] then Inr (bip32_xpub_of w root_key, s')
                  else
                    bind_result (derive w root_key child_path BIP32_FLAG_KEY_PUBLIC)
                      (\<lambda>child_key. cache_ext_key w s' path (Some child_key)))))"

definition get_bip32_xpub ::
  "'k crypto \<Rightarrow> 'k signer \<Rightarrow> u32 list \<Rightarrow> (string \<times> 'k signer) result" where
  "get_bip32_xpub w s path =
     (case find_parent (m_cached_bip32_xpubs s) path [] of
        (parent_path, child_path, Some xpub) \<Rightarrow>
          if child_path = [] then Inr (xpub, s)
          else
            bind_result (bip32_public_key_from_bip32_xpub w xpub)
              (\<lambda>k. derive_from_parent w s path parent_path child_path (Some k))
      | (parent_path, child_path, None) \<Rightarrow>
          derive_from_parent w s path parent_path child_path None)"

text \<open>\<open>has_bip32_xpub\<close>: with a master key every xpub can be derived; otherwise climb
  from the path towards the root until a cached entry, the root or a hardened last
  component is met.\<close>

function has_cached_parent :: "(u32 list \<rightharpoonup> string) \<Rightarrow> u32 list \<Rightarrow> bool" where
  "has_cached_parent cache parent_path =
     (case cache parent_path of
        Some xpub \<Rightarrow> True
      | None \<Rightarrow>
          if parent_path = [] \<or> is_hardened (last parent_path) then False
          else has_cached_parent cache (butlast parent_path))"
  by pat_completeness auto
termination
  by (relation "measure (\<lambda>(cache, parent_path). length parent_path)") auto

declare has_cached_parent.simps [simp del]

definition has_bip32_xpub :: "'k signer \<Rightarrow> u32 list \<Rightarrow> bool" where
  "has_bip32_xpub s path =
     (if m_master_key s \<noteq> None then True
      else has_cached_parent (m_cached_bip32_xpubs s) path)"

subsection \<open>The master blinding key\<close>

text \<open>
  \<open>set_master_blinding_key\<close>: \<open>blinding_key_t\<close> is an array of \<open>SHA512_LEN\<close> bytes; it
  starts as all zeros and the decoded bytes are copied to its end.
\<close>

definition set_master_blinding_key :: "'k signer \<Rightarrow> string \<Rightarrow> 'k signer result" where
  "set_master_blinding_key s blinding_key_hex =
     (if blinding_key_hex \<noteq> [] then
        bind_result (h2b blinding_key_hex)
          (\<lambda>key_bytes.
             let key_size = length key_bytes in
             if \<not> (key_size = SHA512_LEN \<or> key_size = SHA512_LEN div 2) then Inl assertion_error
             else
               let key = replicate (SHA512_LEN - key_size) 0 @ key_bytes in
               Inr (s\<lparr>m_master_blinding_key := Some key\<rparr>))
      else Inr s)"

section \<open>Concrete instances used to exercise the theorems\<close>

text \<open>
  A symbolic BIP32: a key is the text of its derivation, \<open>xprv\<close> or \<open>xpub\<close> followed by
  the root's name and one \<open>/<hex><h|n>\<close> per component.  A public key cannot take a
  hardened step.
\<close>

definition toy_component :: "u32 \<Rightarrow> string" where
  "toy_component c =
     [CHR ''/'', hex_char (unat (c AND 0xFF) div 16), hex_char (unat (c AND 0xFF) mod 16),
      if is_hardened c then CHR ''h'' else CHR ''n'']"

definition toy_crypto :: "string crypto" where
  "toy_crypto =
     \<lparr>bip32_key_from_parent_path_alloc =
        (\<lambda>k path flags.
           if take 4 k = ''xpub'' \<and> list_ex is_hardened path then Inl wally_error
           else Inr ((if flags AND 1 \<noteq> 0 then ''xpub'' else take 4 k) @ drop 4 k
                     @ concat (map toy_component path))),
      bip32_public_key_from_bip32_xpub =
        (\<lambda>xpub. if take 4 xpub = ''xpub'' then Inr xpub else Inl wally_error),
      bip32_xpub_of = (\<lambda>k. ''xpub'' @ drop 4 k),
      bip32_key_from_seed_alloc = (\<lambda>seed version flags. Inr (''xprv'' @ b2h (take 2 seed))),
      asset_blinding_key_from_seed = (\<lambda>seed. replicate 64 0),
      bip39_mnemonic_to_seed = (\<lambda>mnemonic passphrase. Inr (replicate 64 1)),
      decrypt_mnemonic = (\<lambda>mnemonic password. Inr mnemonic)\<rparr>"

text \<open>Sample signers, device descriptors and networks.\<close>

definition watch_only_keys :: "string signer" where
  "watch_only_keys =
     \<lparr>m_is_main_net = True, m_is_liquid = False, m_btc_version = 0,
      m_credentials = JObj [''username'' \<mapsto> JStr ''u'', ''password'' \<mapsto> JStr ''p''],
      m_device = WATCH_ONLY_DEVICE_JSON, m_master_key = None, m_master_blinding_key = None,
      m_cached_bip32_xpubs = [[harden 84, harden 0, harden 0] \<mapsto> ''xpubA'']\<rparr>"

definition software_keys :: "string signer" where
  "software_keys =
     \<lparr>m_is_main_net = True, m_is_liquid = False, m_btc_version = 0,
      m_credentials = JObj [''seed'' \<mapsto> JStr ''00''],
      m_device = SOFTWARE_DEVICE_JSON, m_master_key = Some ''xprvM'',
      m_master_blinding_key = None, m_cached_bip32_xpubs = Map.empty\<rparr>"

definition one_entry_keys :: "string signer" where
  "one_entry_keys = software_keys\<lparr>m_cached_bip32_xpubs := [[harden 84] \<mapsto> ''xpubA'']\<rparr>"

definition two_entry_keys :: "string signer" where
  "two_entry_keys = software_keys\<lparr>m_cached_bip32_xpubs :=
     [[harden 84, harden 0, harden 0] \<mapsto> ''xpubM/54h/00h/00h'',
      [harden 84, harden 0, harden 0, 0, 5] \<mapsto> ''xpubM/54h/00h/00h/00n/05n'']\<rparr>"

definition three_entry_keys :: "string signer" where
  "three_entry_keys = software_keys\<lparr>m_cached_bip32_xpubs :=
     [[harden 84, harden 0, harden 0] \<mapsto> ''xpubM/54h/00h/00h'',
      [harden 84, harden 0, harden 0, 0, 5] \<mapsto> ''xpubM/54h/00h/00h/00n/05n'',
      [harden 84, harden 0, harden 0, 0, 6] \<mapsto> ''xpubM/54h/00h/00h/00n/06n'']\<rparr>"

definition hardware_jade :: json where
  "hardware_jade = JObj [''device'' \<mapsto> JObj [''name'' \<mapsto> JStr ''Jade'',
      ''supports_liquid'' \<mapsto> json_of_level liquid_support_level_lite,
      ''supports_low_r'' \<mapsto> JBool True]]"

definition hardware_no_liquid :: json where
  "hardware_no_liquid = JObj [''device'' \<mapsto> JObj [''name'' \<mapsto> JStr ''Ledger'']]"

text \<open>What \<open>get_device_json\<close> makes of the two hardware descriptors.\<close>

definition jade_device :: json where
  "jade_device = JObj
     [''name'' \<mapsto> JStr ''Jade'', ''supports_liquid'' \<mapsto> JNum 1,
      ''supports_low_r'' \<mapsto> JBool True, ''supports_arbitrary_scripts'' \<mapsto> JBool False,
      ''supports_host_unblinding'' \<mapsto> JBool False,
      ''supports_external_blinding'' \<mapsto> JBool False,
      ''supports_ae_protocol'' \<mapsto> JNum 0, ''device_type'' \<mapsto> JStr ''hardware'']"

definition ledger_device :: json where
  "ledger_device = JObj
     [''name'' \<mapsto> JStr ''Ledger'', ''supports_low_r'' \<mapsto> JBool False,
      ''supports_arbitrary_scripts'' \<mapsto> JBool False,
      ''supports_host_unblinding'' \<mapsto> JBool False,
      ''supports_external_blinding'' \<mapsto> JBool False,
      ''supports_liquid'' \<mapsto> JNum 0, ''supports_ae_protocol'' \<mapsto> JNum 0,
      ''device_type'' \<mapsto> JStr ''hardware'']"

text \<open>A hardware signer on Bitcoin, as the constructor builds it.\<close>

definition jade_signer :: "string signer" where
  "jade_signer =
     \<lparr>m_is_main_net = True, m_is_liquid = False, m_btc_version = 0,
      m_credentials = JNull, m_device = jade_device, m_master_key = None,
      m_master_blinding_key = None, m_cached_bip32_xpubs = Map.empty\<rparr>"

definition bitcoin_params :: network_parameters where
  "bitcoin_params = \<lparr>is_main_net = True, is_liquid = False, btc_version = 0,
     is_electrum = False, get_policy_asset = ''btc''\<rparr>"

definition liquid_params :: network_parameters where
  "liquid_params = \<lparr>is_main_net = True, is_liquid = True, btc_version = 57,
     is_electrum = False,
     get_policy_asset = ''6f0279e9ed041c3d710a9f57d0c02928416460c4b722ae3457a11eec381c526d''\<rparr>"

definition half_key_hex :: string where
  "half_key_hex = ''000102030405060708090a0b0c0d0e0f101112131415161718191a1b1c1d1e1f''"

definition half_key_bytes :: "byte list" where
  "half_key_bytes = [0, 1, 2, 3, 4, 5, 6, 7, 8, 9, 10, 11, 12, 13, 14, 15, 16, 17, 18, 19, 20,
     21, 22, 23, 24, 25, 26, 27, 28, 29, 30, 31]"

section \<open>PSBT and PSET (ga_psbt.cpp)\<close>

subsection \<open>Data of libwally\<close>

text \<open>
  The parts of libwally's structures that the code reads or writes.  A script pointer
  that may be null is an optional byte string; the two field maps of an input or output
  are maps from the field number to its bytes.
\<close>

record wally_tx_output =
  txout_satoshi :: u64
  txout_script :: "byte list option"

record wally_tx_input =
  txin_txhash :: "byte list"
  txin_index :: u32
  txin_sequence :: u32
  txin_script :: "byte list option"
  txin_witness :: "byte list list option"

record wally_tx =
  tx_version :: u32
  tx_inputs :: "wally_tx_input list"
  tx_outputs :: "wally_tx_output list"

record wally_psbt_input =
  psbt_in_txhash :: "byte list"
  psbt_in_index :: u32
  psbt_in_sighash :: u32
  psbt_in_has_amount :: bool
  psbt_in_amount :: u64
  psbt_in_utxo :: "wally_tx option"
  psbt_in_witness_utxo :: "wally_tx_output option"
  psbt_in_psbt_fields :: "u32 \<rightharpoonup> byte list"
  psbt_in_pset_fields :: "u32 \<rightharpoonup> byte list"

record wally_psbt_output =
  psbt_out_script :: "byte list option"
  psbt_out_has_amount :: bool
  psbt_out_amount :: u64
  psbt_out_psbt_fields :: "u32 \<rightharpoonup> byte list"
  psbt_out_pset_fields :: "u32 \<rightharpoonup> byte list"

record wally_psbt =
  psbt_version :: u32
  psbt_is_elements :: bool
  psbt_inputs :: "wally_psbt_input list"
  psbt_outputs :: "wally_psbt_output list"
  psbt_global :: string

text \<open>Constants of libwally.\<close>

definition WALLY_PSBT_VERSION_0 :: u32 where "WALLY_PSBT_VERSION_0 = 0"
definition WALLY_PSBT_EXTRACT_OPT_FINAL :: u32 where "WALLY_PSBT_EXTRACT_OPT_FINAL = 2"
definition WALLY_SIGHASH_ALL :: u32 where "WALLY_SIGHASH_ALL = 1"
definition WALLY_PSET_BLINDED_NONE :: nat where "WALLY_PSET_BLINDED_NONE = 0"
definition WALLY_PSET_BLINDED_FULL :: nat where "WALLY_PSET_BLINDED_FULL = 4"

text \<open>
  The functions of libwally that the code calls and that do more than read or write a
  field: the base64 codec, the conversion between versions, the extraction of the
  transaction, the blinding status of an output, and the check that libwally makes
  before it attaches a previous transaction to an input.
\<close>

record wally =
  wally_psbt_from_base64 :: "string \<Rightarrow> u32 \<Rightarrow> wally_psbt result"
  wally_psbt_to_base64 :: "wally_psbt \<Rightarrow> u32 \<Rightarrow> string result"
  wally_psbt_set_version :: "wally_psbt \<Rightarrow> u32 \<Rightarrow> u32 \<Rightarrow> wally_psbt result"
  wally_psbt_extract :: "wally_psbt \<Rightarrow> u32 \<Rightarrow> wally_tx result"
  wally_psbt_get_output_blinding_status :: "wally_psbt \<Rightarrow> nat \<Rightarrow> u32 \<Rightarrow> nat result"
  wally_psbt_accepts_input_utxo :: "wally_psbt_input \<Rightarrow> wally_tx \<Rightarrow> bool"

text \<open>
  \<open>wally_psbt_get_input_best_utxo\<close>: the witness UTXO if the input has one, else the
  output of the attached previous transaction that the input spends, else null.
  \<open>wally_psbt_set_input_utxo\<close> attaches a previous transaction.
\<close>

definition wally_psbt_get_input_best_utxo :: "wally_psbt_input \<Rightarrow> wally_tx_output option" where
  "wally_psbt_get_input_best_utxo input =
     (case psbt_in_witness_utxo input of
        Some out \<Rightarrow> Some out
      | None \<Rightarrow>
          (case psbt_in_utxo input of
             Some utxo_tx \<Rightarrow>
               if unat (psbt_in_index input) < length (tx_outputs utxo_tx)
               then Some (tx_outputs utxo_tx ! unat (psbt_in_index input))
               else None
           | None \<Rightarrow> None))"

definition wally_psbt_set_input_utxo ::
  "wally \<Rightarrow> wally_psbt_input \<Rightarrow> wally_tx \<Rightarrow> wally_psbt_input result" where
  "wally_psbt_set_input_utxo w input utxo_tx =
     (if wally_psbt_accepts_input_utxo w input utxo_tx
      then Inr (input\<lparr>psbt_in_utxo := Some utxo_tx\<rparr>)
      else Inl wally_error)"

text \<open>The field numbers that ga_psbt.cpp names.\<close>

definition in_redeem_script :: u32 where "in_redeem_script = 0x04"
definition in_witness_script :: u32 where "in_witness_script = 0x05"
definition in_value_proof :: u32 where "in_value_proof = 0x12"
definition in_explicit_asset :: u32 where "in_explicit_asset = 0x13"
definition in_asset_proof :: u32 where "in_asset_proof = 0x14"
definition out_value_commitment :: u32 where "out_value_commitment = 0x01"
definition out_asset :: u32 where "out_asset = 0x02"
definition out_asset_commitment :: u32 where "out_asset_commitment = 0x03"
definition out_value_rangeproof :: u32 where "out_value_rangeproof = 0x04"
definition out_asset_surjection_proof :: u32 where "out_asset_surjection_proof = 0x05"
definition out_blinding_pubkey :: u32 where "out_blinding_pubkey = 0x06"
definition out_ecdh_pubkey :: u32 where "out_ecdh_pubkey = 0x07"
definition out_blind_value_proof :: u32 where "out_blind_value_proof = 0x09"
definition out_blind_asset_proof :: u32 where "out_blind_asset_proof = 0x0a"

text \<open>\<open>set_pset_field\<close>: copy a PSET field into the JSON as hex, or throw when the
  field is absent.\<close>

definition set_pset_field ::
  "(u32 \<rightharpoonup> byte list) \<Rightarrow> jobj \<Rightarrow> string \<Rightarrow> u32 \<Rightarrow> bool \<Rightarrow> jobj result" where
  "set_pset_field pset_fields dst key k do_reverse =
     (case pset_fields k of
        None \<Rightarrow> Inl (user_error (key @ '' not found''))
      | Some val \<Rightarrow> Inr (dst(key \<mapsto> JStr ((if do_reverse then b2h_rev else b2h) val))))"

subsection \<open>The PSBT object: parsing and serialising\<close>

record Psbt =
  m_original_version :: u32
  m_psbt_is_liquid :: bool
  m_psbt :: wally_psbt



definition Psbt_extract :: "wally \<Rightarrow> Psbt \<Rightarrow> wally_tx result" where
  "Psbt_extract w this = wally_psbt_extract w (m_psbt this) WALLY_PSBT_EXTRACT_OPT_FINAL"

definition get_num_inputs :: "Psbt \<Rightarrow> nat" where
  "get_num_inputs this = length (psbt_inputs (m_psbt this))"

definition get_input :: "Psbt \<Rightarrow> nat \<Rightarrow> wally_psbt_input result" where
  "get_input this index =
     (if index < length (psbt_inputs (m_psbt this)) then Inr (psbt_inputs (m_psbt this) ! index)
      else Inl assertion_error)"

definition get_num_outputs :: "Psbt \<Rightarrow> nat" where
  "get_num_outputs this = length (psbt_outputs (m_psbt this))"

definition get_output :: "Psbt \<Rightarrow> nat \<Rightarrow> wally_psbt_output result" where
  "get_output this index =
     (if index < length (psbt_outputs (m_psbt this)) then Inr (psbt_outputs (m_psbt this) ! index)
      else Inl assertion_error)"

subsection \<open>Collaborators of the enrichment\<close>

text \<open>
  Modelled from the spec: further accessors of \<open>json_utils.hpp\<close> (not part of the
  sources).  \<open>j_assetref\<close> is the asset id of an input or output on Liquid and \<open>btc\<close>
  elsewhere; \<open>j_amountref\<close> is its \<open>satoshi\<close>; \<open>j_rename\<close> moves a value to another key.
  \<open>amount\<close> (of \<open>amount.hpp\<close>, not part of the sources either) wraps an unsigned 64 bit
  integer, with the machine's arithmetic.
\<close>

definition j_bool_or_false :: "json \<Rightarrow> string \<Rightarrow> bool result" where
  "j_bool_or_false j k =
     (case j of
        JObj m \<Rightarrow> (case m k of None \<Rightarrow> Inr False | Some (JBool b) \<Rightarrow> Inr b | Some _ \<Rightarrow> Inl json_error)
      | JNull \<Rightarrow> Inr False
      | _ \<Rightarrow> Inl json_error)"

definition j_str_is_empty :: "json \<Rightarrow> string \<Rightarrow> bool result" where
  "j_str_is_empty j k = bind_result (j_str_or_empty j k) (\<lambda>s. Inr (s = []))"

definition j_uint32ref :: "json \<Rightarrow> string \<Rightarrow> u32 result" where
  "j_uint32ref j k =
     bind_result (json_at j k) (\<lambda>v. case v of JNum n \<Rightarrow> Inr (word_of_int n) | _ \<Rightarrow> Inl json_error)"

definition j_amountref :: "json \<Rightarrow> u64 result" where
  "j_amountref j =
     bind_result (json_at j ''satoshi'')
       (\<lambda>v. case v of JNum n \<Rightarrow> Inr (word_of_int n) | _ \<Rightarrow> Inl json_error)"

definition j_assetref :: "bool \<Rightarrow> json \<Rightarrow> string result" where
  "j_assetref liquid j = (if liquid then j_strref j ''asset_id'' else Inr ''btc'')"

definition j_rename :: "jobj \<Rightarrow> string \<Rightarrow> string \<Rightarrow> jobj" where
  "j_rename m from_key to_key =
     (case m from_key of None \<Rightarrow> m | Some v \<Rightarrow> (m(from_key := None))(to_key \<mapsto> v))"

text \<open>
  What the enrichment asks of the session and of helpers whose code is not part of the
  sources: the network parameters, the raw transaction of a txid, the wallet's data for
  a scriptpubkey (empty when the script is not the wallet's), derivation paths,
  dummy signatures, addresses, unblinding, the size and fee rate figures
  (\<open>update_tx_info\<close>), and of the transaction wrapper the JSON of an input, the hex
  text and the txid.  Any of them may throw.
\<close>

record session_impl =
  get_network_parameters :: network_parameters
  get_raw_transaction_details :: "string \<Rightarrow> wally_tx result"
  get_scriptpubkey_data :: "byte list \<Rightarrow> jobj result"
  utxo_add_paths :: "jobj \<Rightarrow> jobj result"
  get_scriptsig_and_witness :: "jobj \<Rightarrow> (byte list \<times> byte list list) result"
  get_address_from_scriptpubkey :: "byte list \<Rightarrow> string result"
  get_address_from_utxo :: "jobj \<Rightarrow> string result"
  unblind_output :: "wally_tx \<Rightarrow> nat \<Rightarrow> jobj result"
  confidentialize_address :: "jobj \<Rightarrow> string \<Rightarrow> jobj result"
  update_tx_info :: "wally_tx \<Rightarrow> jobj \<Rightarrow> jobj result"
  input_to_json :: "wally_tx_input \<Rightarrow> jobj"
  tx_to_hex :: "wally_tx \<Rightarrow> string"
  tx_get_txid :: "wally_tx \<Rightarrow> byte list"

text \<open>Modelled from the spec: \<open>Tx::get_input\<close> (of \<open>ga_tx.cpp\<close>, not part of the sources)
  is bounds checked like \<open>Psbt::get_input\<close>.\<close>

definition tx_get_input :: "wally_tx \<Rightarrow> nat \<Rightarrow> wally_tx_input result" where
  "tx_get_input tx index =
     (if index < length (tx_inputs tx) then Inr (tx_inputs tx ! index) else Inl assertion_error)"

subsection \<open>Inputs\<close>

text \<open>
  The wallet's UTXOs as the caller passes them: a flat array (deprecated), or arrays
  keyed by asset, listed in the container's order of iteration.
\<close>

datatype wallet_utxos =
    UtxoArray "jobj list"
  | UtxoByAsset "(string \<times> jobj list) list"

text \<open>\<open>take_matching_utxo\<close>: the first UTXO of the array that is not empty and has the
  given \<open>pt_idx\<close> and \<open>txhash\<close>.\<close>

fun take_matching_utxo :: "jobj list \<Rightarrow> string \<Rightarrow> u32 \<Rightarrow> jobj option result" where
  "take_matching_utxo [] txhash_hex vout = Inr None"
| "take_matching_utxo (u # utxos) txhash_hex vout =
     (if u = Map.empty then take_matching_utxo utxos txhash_hex vout
      else
        bind_result (j_uint32ref (JObj u) ''pt_idx'') (\<lambda>pt_idx.
          if pt_idx \<noteq> vout then take_matching_utxo utxos txhash_hex vout
          else
            bind_result (j_strref (JObj u) ''txhash'') (\<lambda>txhash.
              if txhash = txhash_hex then Inr (Some u)
              else take_matching_utxo utxos txhash_hex vout)))"

fun take_matching_utxo_by_asset ::
  "(string \<times> jobj list) list \<Rightarrow> string \<Rightarrow> u32 \<Rightarrow> jobj option result" where
  "take_matching_utxo_by_asset [] txhash_hex vout = Inr None"
| "take_matching_utxo_by_asset ((asset, utxos) # items) txhash_hex vout =
     bind_result (take_matching_utxo utxos txhash_hex vout) (\<lambda>found.
       case found of
         Some u \<Rightarrow> Inr (Some u)
       | None \<Rightarrow> take_matching_utxo_by_asset items txhash_hex vout)"

definition find_wallet_utxo :: "wallet_utxos \<Rightarrow> string \<Rightarrow> u32 \<Rightarrow> jobj option result" where
  "find_wallet_utxo utxos txhash_hex vout =
     (case utxos of
        UtxoArray us \<Rightarrow> take_matching_utxo us txhash_hex vout
      | UtxoByAsset items \<Rightarrow> take_matching_utxo_by_asset items txhash_hex vout)"

text \<open>The best UTXO of an input, fetching and attaching the previous transaction when
  the PSBT has none.\<close>

definition ensure_input_utxo ::
  "wally \<Rightarrow> session_impl \<Rightarrow> wally_psbt_input \<Rightarrow> string \<Rightarrow>
   (wally_psbt_input \<times> wally_tx_output) result" where
  "ensure_input_utxo w session psbt_input txhash_hex =
     (case wally_psbt_get_input_best_utxo psbt_input of
        Some txin_utxo \<Rightarrow> Inr (psbt_input, txin_utxo)
      | None \<Rightarrow>
          bind_result (get_raw_transaction_details session txhash_hex) (\<lambda>utxo_tx.
          bind_result (wally_psbt_set_input_utxo w psbt_input utxo_tx) (\<lambda>psbt_input'.
            case wally_psbt_get_input_best_utxo psbt_input' of
              Some txin_utxo \<Rightarrow> Inr (psbt_input', txin_utxo)
            | None \<Rightarrow> Inl assertion_error)))"

text \<open>A wallet input: its asset is recorded, a sighash other than ALL is kept as
  \<open>user_sighash\<close>, three keys are dropped, the paths are added, and a missing scriptSig
  or witness is filled with dummy signatures.\<close>

definition wallet_input_to_json ::
  "session_impl \<Rightarrow> bool \<Rightarrow> wally_psbt_input \<Rightarrow> wally_tx_input \<Rightarrow> jobj \<Rightarrow>
   (jobj \<times> string option \<times> wally_tx_input) result" where
  "wallet_input_to_json session liquid psbt_input txin utxo0 =
     bind_result (j_assetref liquid (JObj utxo0)) (\<lambda>asset.
       let utxo1 = (if psbt_in_sighash psbt_input \<noteq> 0
                       \<and> psbt_in_sighash psbt_input \<noteq> WALLY_SIGHASH_ALL
                    then utxo0(''user_sighash'' \<mapsto> JNum (uint (psbt_in_sighash psbt_input)))
                    else utxo0);
           utxo2 = utxo1(''user_status'' := None, ''witness'' := None, ''script_sig'' := None)
       in
       bind_result (utxo_add_paths session utxo2) (\<lambda>utxo.
         if txin_script txin = None \<or> txin_witness txin = None then
           bind_result (get_scriptsig_and_witness session utxo) (\<lambda>(scriptsig, witness).
             Inr (utxo, Some asset,
                  txin\<lparr>txin_script := (case txin_script txin of None \<Rightarrow> Some scriptsig
                                          | Some s \<Rightarrow> Some s),
                        txin_witness := (case txin_witness txin of None \<Rightarrow> Some witness
                                           | Some wit \<Rightarrow> Some wit)\<rparr>))
         else Inr (utxo, Some asset, txin)))"

text \<open>An input that is not the wallet's.\<close>

definition non_wallet_input_to_json ::
  "bool \<Rightarrow> wally_psbt_input \<Rightarrow> wally_tx_output \<Rightarrow> jobj \<Rightarrow> jobj result" where
  "non_wallet_input_to_json liquid psbt_input txin_utxo utxo0 =
     (let utxo1 = utxo0(''skip_signing'' \<mapsto> JBool True) in
      bind_result
        (if \<not> liquid then Inr (utxo1(''satoshi'' \<mapsto> JNum (uint (txout_satoshi txin_utxo))))
         else if psbt_in_has_amount psbt_input then
           bind_result
             (set_pset_field (psbt_in_pset_fields psbt_input)
                (utxo1(''satoshi'' \<mapsto> JNum (uint (psbt_in_amount psbt_input))))
                ''asset_id'' in_explicit_asset True) (\<lambda>utxo2.
           bind_result
             (set_pset_field (psbt_in_pset_fields psbt_input) utxo2
                ''value_blind_proof'' in_value_proof False) (\<lambda>utxo3.
             set_pset_field (psbt_in_pset_fields psbt_input) utxo3
               ''asset_blind_proof'' in_asset_proof False))
         else Inr (utxo1(''error'' \<mapsto> JStr ''failed to unblind utxo'')))
        (\<lambda>utxo.
           case psbt_in_psbt_fields psbt_input in_redeem_script of
             Some redeem_script \<Rightarrow> Inr (utxo(''redeem_script'' \<mapsto> JStr (b2h redeem_script)))
           | None \<Rightarrow> Inr utxo))"

text \<open>The body of the loop of \<open>inputs_to_json\<close> for one input: the JSON of the input,
  the wallet asset it contributes if it is the wallet's, and the input of the
  transaction and of the PSBT as the body leaves them.\<close>

definition input_to_json_step ::
  "wally \<Rightarrow> session_impl \<Rightarrow> bool \<Rightarrow> wallet_utxos \<Rightarrow> wally_psbt_input \<Rightarrow> wally_tx_input \<Rightarrow>
   (jobj \<times> string option \<times> wally_tx_input \<times> wally_psbt_input) result" where
  "input_to_json_step w session liquid utxos psbt_input txin =
     (let utxo0 = input_to_json session txin in
      bind_result (j_strref (JObj utxo0) ''txhash'') (\<lambda>txhash_hex.
      bind_result (find_wallet_utxo utxos txhash_hex (psbt_in_index psbt_input)) (\<lambda>found.
      bind_result (ensure_input_utxo w session psbt_input txhash_hex) (\<lambda>(psbt_input', txin_utxo).
        case found of
          Some wallet_utxo \<Rightarrow>
            bind_result (wallet_input_to_json session liquid psbt_input' txin wallet_utxo)
              (\<lambda>(utxo, asset, txin'). Inr (utxo, asset, txin', psbt_input'))
        | None \<Rightarrow>
            bind_result (non_wallet_input_to_json liquid psbt_input' txin_utxo utxo0)
              (\<lambda>utxo. Inr (utxo, None, txin, psbt_input'))))))"

text \<open>The loop over the inputs.  Its state is the array of input JSON so far, the set
  of wallet assets, the transaction and the PSBT.\<close>

fun inputs_loop ::
  "wally \<Rightarrow> session_impl \<Rightarrow> bool \<Rightarrow> wallet_utxos \<Rightarrow> nat list \<Rightarrow>
   jobj list \<times> string set \<times> wally_tx \<times> wally_psbt \<Rightarrow>
   (jobj list \<times> string set \<times> wally_tx \<times> wally_psbt) result" where
  "inputs_loop w session liquid utxos [] state = Inr state"
| "inputs_loop w session liquid utxos (i # rest) (inputs, wallet_assets, tx, psbt) =
     (if \<not> i < length (psbt_inputs psbt) then Inl assertion_error
      else
        bind_result (tx_get_input tx i) (\<lambda>txin.
        bind_result (input_to_json_step w session liquid utxos (psbt_inputs psbt ! i) txin)
          (\<lambda>(utxo, asset, txin', psbt_input').
             inputs_loop w session liquid utxos rest
               (inputs @ [utxo],
                (case asset of Some a \<Rightarrow> insert a wallet_assets | None \<Rightarrow> wallet_assets),
                tx\<lparr>tx_inputs := (tx_inputs tx)[i := txin']\<rparr>,
                psbt\<lparr>psbt_inputs := (psbt_inputs psbt)[i := psbt_input']\<rparr>))))"

definition inputs_to_json ::
  "wally \<Rightarrow> session_impl \<Rightarrow> Psbt \<Rightarrow> wally_tx \<Rightarrow> wallet_utxos \<Rightarrow>
   (jobj list \<times> string set \<times> wally_tx \<times> wally_psbt) result" where
  "inputs_to_json w session this tx utxos =
     inputs_loop w session (m_psbt_is_liquid this) utxos [0..<get_num_inputs this]
       ([], {}, tx, m_psbt this)"

subsection \<open>Outputs\<close>

text \<open>
  The first part of the loop body of \<open>outputs_to_json\<close>: amount, asset, script and,
  on Liquid, the blinding data.  The result is the JSON so far and the script to look
  up, or only the JSON for the Liquid fee output, where the body ends early.
\<close>

definition blinded_output_fields_to_json :: "wally_psbt_output \<Rightarrow> jobj \<Rightarrow> jobj result" where
  "blinded_output_fields_to_json txout j1 =
     bind_result (set_pset_field (psbt_out_pset_fields txout) j1
                    ''commitment'' out_value_commitment False) (\<lambda>j2.
     bind_result (set_pset_field (psbt_out_pset_fields txout) j2
                    ''asset_tag'' out_asset_commitment False) (\<lambda>j3.
     bind_result (set_pset_field (psbt_out_pset_fields txout) j3
                    ''range_proof'' out_value_rangeproof False) (\<lambda>j4.
     bind_result (set_pset_field (psbt_out_pset_fields txout) j4
                    ''surj_proof'' out_asset_surjection_proof False) (\<lambda>j5.
     bind_result (set_pset_field (psbt_out_pset_fields txout) j5
                    ''blinding_key'' out_blinding_pubkey False) (\<lambda>j6.
     bind_result (set_pset_field (psbt_out_pset_fields txout) j6
                    ''eph_public_key'' out_ecdh_pubkey False) (\<lambda>j7.
     bind_result (set_pset_field (psbt_out_pset_fields txout) j7
                    ''value_blind_proof'' out_blind_value_proof False) (\<lambda>j8.
       set_pset_field (psbt_out_pset_fields txout) j8
         ''asset_blind_proof'' out_blind_asset_proof False)))))))"

definition liquid_output_fields_to_json ::
  "wally \<Rightarrow> Psbt \<Rightarrow> nat \<Rightarrow> wally_psbt_output \<Rightarrow> (jobj \<times> byte list option) result" where
  "liquid_output_fields_to_json w this i txout =
     bind_result
       (set_pset_field (psbt_out_pset_fields txout) Map.empty ''asset_id'' out_asset True)
       (\<lambda>j0.
          if \<not> psbt_out_has_amount txout then Inl assertion_error
          else
            bind_result (wally_psbt_get_output_blinding_status w (m_psbt this) i 0)
              (\<lambda>blinding_status.
                 let j1 = j0(''satoshi'' \<mapsto> JNum (uint (psbt_out_amount txout))) in
                 if blinding_status = WALLY_PSET_BLINDED_NONE then
                   (if psbt_out_script txout \<noteq> None then Inl assertion_error
                    else Inr (j1(''scriptpubkey'' \<mapsto> JStr []), None))
                 else if blinding_status \<noteq> WALLY_PSET_BLINDED_FULL then Inl assertion_error
                 else
                   bind_result (blinded_output_fields_to_json txout j1) (\<lambda>j9.
                     case psbt_out_script txout of
                       None \<Rightarrow> Inl assertion_error
                     | Some script \<Rightarrow>
                         Inr (j9(''scriptpubkey'' \<mapsto> JStr (b2h script)), Some script))))"

definition output_fields_to_json ::
  "wally \<Rightarrow> Psbt \<Rightarrow> nat \<Rightarrow> wally_psbt_output \<Rightarrow> (jobj \<times> byte list option) result" where
  "output_fields_to_json w this i txout =
     (if \<not> m_psbt_is_liquid this then
        (if \<not> psbt_out_has_amount txout then Inl assertion_error
         else
           (case psbt_out_script txout of
              None \<Rightarrow> Inl assertion_error
            | Some script \<Rightarrow>
                if script = [] then Inl assertion_error
                else Inr ([''satoshi'' \<mapsto> JNum (uint (psbt_out_amount txout)),
                           ''scriptpubkey'' \<mapsto> JStr (b2h script)], Some script)))
      else liquid_output_fields_to_json w this i txout)"

text \<open>
  The second part: the wallet's data for the script.  A wallet output takes the data
  (on Liquid after unblinding; when unblinding reports an error the body ends early),
  an address and its paths; any other output takes the address of its script.  The
  result says whether the body goes on, and whether the output is the wallet's.
\<close>

definition output_owner_to_json ::
  "session_impl \<Rightarrow> bool \<Rightarrow> wally_tx \<Rightarrow> nat \<Rightarrow> jobj \<Rightarrow> byte list \<Rightarrow>
   (jobj \<times> bool option) result" where
  "output_owner_to_json session liquid tx i jsonout script =
     bind_result (get_scriptpubkey_data session script) (\<lambda>output_data.
       let is_wallet_output = (output_data \<noteq> Map.empty) in
       if \<not> is_wallet_output then
         bind_result (get_address_from_scriptpubkey session script) (\<lambda>address.
           Inr (jsonout(''address'' \<mapsto> JStr address), Some False))
       else
         bind_result
           (if liquid then
              bind_result (unblind_output session tx i) (\<lambda>unblinded.
                if unblinded ''error'' \<noteq> None then Inr None
                else Inr (Some (output_data ++ unblinded)))
            else Inr (Some output_data))
           (\<lambda>data.
              case data of
                None \<Rightarrow> Inr (jsonout, None)
              | Some output_data' \<Rightarrow>
                  let j1 = jsonout ++ output_data' in
                  bind_result (get_address_from_utxo session j1) (\<lambda>address.
                  bind_result (utxo_add_paths session (j1(''address'' \<mapsto> JStr address))) (\<lambda>j2.
                    Inr (if is_electrum (get_network_parameters session)
                         then (j_rename j2 ''is_internal'' ''is_change'')
                                (''branch'' := None, ''subtype'' := None)
                         else j2,
                         Some True)))))"

text \<open>The third part, on Liquid: the address is made confidential when the blinding
  key is known.\<close>

definition output_confidential_to_json ::
  "session_impl \<Rightarrow> bool \<Rightarrow> bool \<Rightarrow> jobj \<Rightarrow> jobj result" where
  "output_confidential_to_json session liquid is_wallet_output jsonout =
     (if liquid then
        (let j1 = jsonout(''is_confidential'' \<mapsto> JBool False) in
         bind_result (j_str (JObj j1) ''blinding_key'') (\<lambda>blinding_key.
         bind_result
           (case blinding_key of
              Some key \<Rightarrow> confidentialize_address session j1 key
            | None \<Rightarrow> Inr j1)
           (\<lambda>j2. Inr (if \<not> is_wallet_output
                       then j2(''is_confidential'' := None, ''unconfidential_address'' := None)
                       else j2))))
      else Inr jsonout)"

text \<open>
  The whole body for output \<open>i\<close>: its JSON and, when the body reaches the change
  detection, the asset and whether the output is the wallet's.
\<close>

definition output_to_json_step ::
  "wally \<Rightarrow> session_impl \<Rightarrow> Psbt \<Rightarrow> wally_tx \<Rightarrow> nat \<Rightarrow> (jobj \<times> (string \<times> bool) option) result" where
  "output_to_json_step w session this tx i =
     bind_result (get_output this i) (\<lambda>txout.
     bind_result (output_fields_to_json w this i txout) (\<lambda>(j0, script).
       case script of
         None \<Rightarrow> Inr (j0, None)
       | Some script \<Rightarrow>
           bind_result (output_owner_to_json session (m_psbt_is_liquid this) tx i j0 script)
             (\<lambda>(j1, owner).
                case owner of
                  None \<Rightarrow> Inr (j1, None)
                | Some is_wallet_output \<Rightarrow>
                    bind_result
                      (output_confidential_to_json session (m_psbt_is_liquid this)
                         is_wallet_output j1) (\<lambda>jsonout.
                    bind_result (j_assetref (m_psbt_is_liquid this) (JObj jsonout)) (\<lambda>asset_id.
                      Inr (jsonout, Some (asset_id, is_wallet_output)))))))"

text \<open>
  \<open>asset_outputs\<close> maps an asset to the indices of the wallet outputs that carry it, in
  the order in which they were met.  It is kept here as a list of entries; the order of
  the entries plays no role, since the entries mark different outputs.
\<close>

fun push_back_output :: "string \<Rightarrow> nat \<Rightarrow> (string \<times> nat list) list \<Rightarrow> (string \<times> nat list) list" where
  "push_back_output asset i [] = [(asset, [i])]"
| "push_back_output asset i ((a, indices) # entries) =
     (if a = asset then (a, indices @ [i]) # entries
      else (a, indices) # push_back_output asset i entries)"

text \<open>The change detection at the end of the loop body.\<close>

definition collect_change ::
  "bool \<Rightarrow> string set \<Rightarrow> nat \<Rightarrow> (string \<times> bool) option \<Rightarrow>
   string set \<times> (string \<times> nat list) list \<Rightarrow> string set \<times> (string \<times> nat list) list" where
  "collect_change electrum wallet_assets i info acc =
     (case info of
        None \<Rightarrow> acc
      | Some (asset_id, is_wallet_output) \<Rightarrow>
          if \<not> electrum \<and> asset_id \<in> wallet_assets then
            (if is_wallet_output then (fst acc, push_back_output asset_id i (snd acc))
             else (insert asset_id (fst acc), snd acc))
          else acc)"

fun outputs_loop ::
  "wally \<Rightarrow> session_impl \<Rightarrow> Psbt \<Rightarrow> wally_tx \<Rightarrow> string set \<Rightarrow> nat list \<Rightarrow>
   jobj list \<times> string set \<times> (string \<times> nat list) list \<Rightarrow>
   (jobj list \<times> string set \<times> (string \<times> nat list) list) result" where
  "outputs_loop w session this tx wallet_assets [] state = Inr state"
| "outputs_loop w session this tx wallet_assets (i # rest) (outputs, spent_assets, asset_outputs) =
     bind_result (output_to_json_step w session this tx i) (\<lambda>(jsonout, info).
       outputs_loop w session this tx wallet_assets rest
         (case collect_change (is_electrum (get_network_parameters session)) wallet_assets i info
                 (spent_assets, asset_outputs) of
            (spent_assets', asset_outputs') \<Rightarrow> (outputs @ [jsonout], spent_assets', asset_outputs')))"

text \<open>The multisig change heuristic: for each asset with wallet outputs, the first of
  them is marked as change or not.\<close>

definition mark_change ::
  "string set \<Rightarrow> string set \<Rightarrow> string \<times> nat list \<Rightarrow> jobj list \<Rightarrow> jobj list" where
  "mark_change wallet_assets spent_assets entry outputs =
     (if fst entry \<in> wallet_assets then
        (let is_spent_externally = (fst entry \<in> spent_assets);
             num_wallet_outputs = length (snd entry);
             is_change = (is_spent_externally \<or> num_wallet_outputs > 1)
         in outputs[hd (snd entry) :=
                      (outputs ! hd (snd entry))(''is_change'' \<mapsto> JBool is_change)])
      else outputs)"

definition outputs_to_json ::
  "wally \<Rightarrow> session_impl \<Rightarrow> Psbt \<Rightarrow> wally_tx \<Rightarrow> string set \<Rightarrow> jobj list result" where
  "outputs_to_json w session this tx wallet_assets =
     bind_result
       (outputs_loop w session this tx wallet_assets [0..<get_num_outputs this] ([], {}, []))
       (\<lambda>(outputs, spent_assets, asset_outputs).
          if \<not> is_electrum (get_network_parameters session)
          then Inr (fold (mark_change wallet_assets spent_assets) asset_outputs outputs)
          else Inr outputs)"

subsection \<open>The details of a PSBT\<close>

text \<open>The two loops of \<open>get_details\<close> over the enriched inputs and outputs.\<close>

fun sum_inputs ::
  "bool \<Rightarrow> string \<Rightarrow> jobj list \<Rightarrow> u64 \<times> string \<times> bool \<Rightarrow> (u64 \<times> string \<times> bool) result" where
  "sum_inputs liquid policy_asset [] acc = Inr acc"
| "sum_inputs liquid policy_asset (input # rest) (running, error, use_error) =
     bind_result (j_str_or_empty (JObj input) ''error'') (\<lambda>txin_error.
       if txin_error \<noteq> [] then
         bind_result (j_bool_or_false (JObj input) ''skip_signing'') (\<lambda>skip_signing.
           sum_inputs liquid policy_asset rest
             (running, txin_error, if \<not> skip_signing then True else use_error))
       else
         bind_result
           (if \<not> liquid then Inr True
            else bind_result (j_assetref liquid (JObj input)) (\<lambda>asset. Inr (asset = policy_asset)))
           (\<lambda>counted.
              if counted then
                bind_result (j_amountref (JObj input)) (\<lambda>satoshi.
                  sum_inputs liquid policy_asset rest (running + satoshi, error, use_error))
              else sum_inputs liquid policy_asset rest (running, error, use_error)))"

fun sum_outputs ::
  "bool \<Rightarrow> string \<Rightarrow> jobj list \<Rightarrow> u64 \<times> u64 \<Rightarrow> (u64 \<times> u64) result" where
  "sum_outputs liquid policy_asset [] acc = Inr acc"
| "sum_outputs liquid policy_asset (txout # rest) (running, explicit_fee) =
     bind_result
       (if \<not> liquid then Inr True
        else bind_result (j_assetref liquid (JObj txout)) (\<lambda>asset. Inr (asset = policy_asset)))
       (\<lambda>counted.
          if counted then
            bind_result
              (if liquid then j_str_is_empty (JObj txout) ''scriptpubkey'' else Inr False)
              (\<lambda>is_fee.
                 bind_result (j_amountref (JObj txout)) (\<lambda>satoshi.
                   if is_fee
                   then sum_outputs liquid policy_asset rest (running, explicit_fee + satoshi)
                   else sum_outputs liquid policy_asset rest (running - satoshi, explicit_fee)))
          else sum_outputs liquid policy_asset rest (running, explicit_fee))"

text \<open>\<open>get_details\<close>.  Besides the JSON it gives the PSBT as the enrichment leaves it,
  with the previous transactions it attached.\<close>

definition get_details ::
  "wally \<Rightarrow> session_impl \<Rightarrow> Psbt \<Rightarrow> (string \<rightharpoonup> wallet_utxos) \<Rightarrow> (jobj \<times> Psbt) result" where
  "get_details w session this details =
     (let liquid = m_psbt_is_liquid this;
          policy_asset = get_policy_asset (get_network_parameters session) in
      bind_result (Psbt_extract w this) (\<lambda>tx0.
      bind_result (case details ''utxos'' of Some u \<Rightarrow> Inr u | None \<Rightarrow> Inl json_error) (\<lambda>utxos.
      bind_result (inputs_to_json w session this tx0 utxos) (\<lambda>(inputs, wallet_assets, tx, psbt).
      let this' = this\<lparr>m_psbt := psbt\<rparr> in
      bind_result (outputs_to_json w session this' tx wallet_assets) (\<lambda>outputs.
      bind_result (sum_inputs liquid policy_asset inputs (0, [], False)) (\<lambda>(inputs_total, error, use_error).
      bind_result (sum_outputs liquid policy_asset outputs (inputs_total, 0)) (\<lambda>(running, explicit_fee).
        if \<not> (\<not> liquid \<or> running = explicit_fee \<or> error \<noteq> []) then Inl assertion_error
        else
          let result0 =
                [''transaction'' \<mapsto> JStr (tx_to_hex session tx),
                 ''transaction_inputs'' \<mapsto> JArr (map JObj inputs),
                 ''transaction_outputs'' \<mapsto> JArr (map JObj outputs),
                 ''fee'' \<mapsto> JNum (uint (if liquid then explicit_fee else running)),
                 ''network_fee'' \<mapsto> JNum 0]
          in
          bind_result (update_tx_info session tx result0) (\<lambda>result1.
            let result2 = result1(''txhash'' \<mapsto> JStr (b2h_rev (tx_get_txid session tx)));
                result3 = (if use_error \<and> result2 ''error'' = None
                           then result2(''error'' \<mapsto> JStr error) else result2)
            in
            bind_result (j_uint32ref (JObj result3) ''calculated_fee_rate'') (\<lambda>fee_rate.
              let result4 = result3(''fee_rate'' \<mapsto> JNum (uint fee_rate));
                  result5 = (if liquid then result4(''is_blinded'' \<mapsto> JBool True) else result4)
              in Inr (result5(''utxo_strategy'' \<mapsto> JStr ''manual''), this'))))))))))"

subsection \<open>Reading the enriched inputs and outputs\<close>

text \<open>
  The readings of an enriched input or output that the properties below speak about,
  with the accessors \<open>get_details\<close> itself uses: the error recorded on an input (empty
  when there is none), whether an input is skipped when signing, the amount and the
  asset of an input or output, and whether an output is the fee output (its
  scriptpubkey is empty).
\<close>

definition input_error :: "jobj \<Rightarrow> string" where
  "input_error input = (case j_str_or_empty (JObj input) ''error'' of Inr e \<Rightarrow> e | Inl x \<Rightarrow> [])"

definition input_skip_signing :: "jobj \<Rightarrow> bool" where
  "input_skip_signing input = (j_bool_or_false (JObj input) ''skip_signing'' = Inr True)"

definition satoshi_of :: "jobj \<Rightarrow> u64" where
  "satoshi_of j = (case j_amountref (JObj j) of Inr v \<Rightarrow> v | Inl x \<Rightarrow> 0)"

definition asset_of :: "jobj \<Rightarrow> string" where
  "asset_of j = (case j_strref (JObj j) ''asset_id'' of Inr a \<Rightarrow> a | Inl x \<Rightarrow> [])"

definition is_fee_output :: "jobj \<Rightarrow> bool" where
  "is_fee_output j = (j_str_is_empty (JObj j) ''scriptpubkey'' = Inr True)"

text \<open>On Liquid: the policy asset amounts of the inputs without an error, of the
  outputs other than the fee, and of the fee outputs.\<close>

definition policy_inputs_sum :: "string \<Rightarrow> jobj list \<Rightarrow> u64" where
  "policy_inputs_sum policy_asset inputs =
     sum_list (map satoshi_of
       (filter (\<lambda>j. input_error j = [] \<and> asset_of j = policy_asset) inputs))"

definition policy_outputs_sum :: "string \<Rightarrow> jobj list \<Rightarrow> u64" where
  "policy_outputs_sum policy_asset outputs =
     sum_list (map satoshi_of
       (filter (\<lambda>j. asset_of j = policy_asset \<and> \<not> is_fee_output j) outputs))"

definition fee_outputs_sum :: "string \<Rightarrow> jobj list \<Rightarrow> u64" where
  "fee_outputs_sum policy_asset outputs =
     sum_list (map satoshi_of
       (filter (\<lambda>j. asset_of j = policy_asset \<and> is_fee_output j) outputs))"




text \<open>
  An input is not the wallet's when the search of \<open>inputs_to_json\<close> through the UTXOs
  of the caller finds no match for its \<open>txhash\<close> and \<open>vout\<close>.
\<close>

definition is_non_wallet_input ::
  "session_impl \<Rightarrow> wallet_utxos \<Rightarrow> wally_psbt_input \<Rightarrow> wally_tx_input \<Rightarrow> bool" where
  "is_non_wallet_input session utxos psbt_input txin =
     (case j_strref (JObj (input_to_json session txin)) ''txhash'' of
        Inr txhash_hex \<Rightarrow> find_wallet_utxo utxos txhash_hex (psbt_in_index psbt_input) = Inr None
      | Inl e \<Rightarrow> False)"

text \<open>The error of the last input that has one (empty when no input has an error).\<close>

definition last_input_error :: "jobj list \<Rightarrow> string" where
  "last_input_error inputs =
     (case filter (\<lambda>e. e \<noteq> []) (map input_error inputs) of [] \<Rightarrow> [] | es \<Rightarrow> last es)"


text \<open>
  A small libwally for PSBTs: the base64 text of a PSBT without inputs and outputs is a
  version digit, \<open>E\<close> or \<open>B\<close> for Elements or Bitcoin, and the global data; converting
  between the versions 0 and 2 changes the version number; an output is fully blinded
  when it has a value commitment.
\<close>

definition toy_wally :: wally where
  "toy_wally =
     \<lparr>wally_psbt_from_base64 =
        (\<lambda>s flags.
           case s of
             v # m # body \<Rightarrow>
               if (v = CHR ''0'' \<or> v = CHR ''2'') \<and> (m = CHR ''E'' \<or> m = CHR ''B'')
               then Inr \<lparr>psbt_version = (if v = CHR ''0'' then 0 else 2),
                         psbt_is_elements = (m = CHR ''E''), psbt_inputs = [],
                         psbt_outputs = [], psbt_global = body\<rparr>
               else Inl wally_error
           | _ \<Rightarrow> Inl wally_error),
      wally_psbt_to_base64 =
        (\<lambda>p flags.
           if psbt_inputs p = [] \<and> psbt_outputs p = []
              \<and> (psbt_version p = 0 \<or> psbt_version p = 2)
           then Inr ((if psbt_version p = 0 then CHR ''0'' else CHR ''2'')
                     # (if psbt_is_elements p then CHR ''E'' else CHR ''B'') # psbt_global p)
           else Inl wally_error),
      wally_psbt_set_version =
        (\<lambda>p flags v.
           if v = psbt_version p then Inr p
           else if v = 0 \<or> v = 2 then Inr (p\<lparr>psbt_version := v\<rparr>)
           else Inl wally_error),
      wally_psbt_extract =
        (\<lambda>p flags.
           Inr \<lparr>tx_version = 2,
                tx_inputs = map (\<lambda>i. \<lparr>txin_txhash = psbt_in_txhash i,
                                         txin_index = psbt_in_index i, txin_sequence = 0,
                                         txin_script = None, txin_witness = None\<rparr>)
                              (psbt_inputs p),
                tx_outputs = map (\<lambda>out. \<lparr>txout_satoshi = psbt_out_amount out,
                                            txout_script = psbt_out_script out\<rparr>)
                               (psbt_outputs p)\<rparr>),
      wally_psbt_get_output_blinding_status =
        (\<lambda>p index flags.
           if index < length (psbt_outputs p)
           then Inr (if psbt_out_pset_fields (psbt_outputs p ! index) out_value_commitment = None
                     then WALLY_PSET_BLINDED_NONE else WALLY_PSET_BLINDED_FULL)
           else Inl wally_error),
      wally_psbt_accepts_input_utxo = (\<lambda>input utxo_tx. True)\<rparr>"





text \<open>
  A session for a multisig wallet on Liquid that owns one script, and helpers that
  answer with fixed data.
\<close>

definition lbtc_asset_bytes :: "byte list" where
  "lbtc_asset_bytes =
     [0x6d, 0x52, 0x1c, 0x38, 0xec, 0x1e, 0xa1, 0x57, 0x34, 0xae, 0x22, 0xb7, 0xc4, 0x60, 0x64,
      0x41, 0x28, 0x29, 0xc0, 0xd0, 0x57, 0x9f, 0x0a, 0x71, 0x3d, 0x1c, 0x04, 0xed, 0xe9, 0x79,
      0x02, 0x6f]"

definition lbtc_asset :: string where
  "lbtc_asset = ''6f0279e9ed041c3d710a9f57d0c02928416460c4b722ae3457a11eec381c526d''"

definition wallet_script :: "byte list" where
  "wallet_script = [0x00, 0x20, 0x77]"

definition other_script :: "byte list" where
  "other_script = [0x00, 0x14, 0x99]"

definition toy_session :: session_impl where
  "toy_session =
     \<lparr>get_network_parameters = liquid_params,
      get_raw_transaction_details = (\<lambda>txhash_hex. Inl upstream_error),
      get_scriptpubkey_data =
        (\<lambda>script. Inr (if script = wallet_script
                         then [''subaccount'' \<mapsto> JNum 0, ''pointer'' \<mapsto> JNum 7]
                         else Map.empty)),
      utxo_add_paths = (\<lambda>utxo. Inr (utxo(''user_path'' \<mapsto> JArr [JNum 1, JNum 7]))),
      get_scriptsig_and_witness = (\<lambda>utxo. Inr ([0], [[0], [0]])),
      get_address_from_scriptpubkey = (\<lambda>script. Inr (''addr'' @ b2h script)),
      get_address_from_utxo = (\<lambda>utxo. Inr ''walletaddr''),
      unblind_output =
        (\<lambda>tx i. if i < length (tx_outputs tx)
                 then Inr [''asset_id'' \<mapsto> JStr lbtc_asset,
                           ''satoshi'' \<mapsto> JNum (uint (txout_satoshi (tx_outputs tx ! i)))]
                 else Inl upstream_error),
      confidentialize_address = (\<lambda>jsonout key. Inr (jsonout(''is_confidential'' \<mapsto> JBool True))),
      update_tx_info = (\<lambda>tx result. Inr (result(''calculated_fee_rate'' \<mapsto> JNum 1000))),
      input_to_json =
        (\<lambda>txin. [''txhash'' \<mapsto> JStr (b2h_rev (txin_txhash txin)),
                  ''pt_idx'' \<mapsto> JNum (uint (txin_index txin))]),
      tx_to_hex = (\<lambda>tx. ''0200''),
      tx_get_txid = (\<lambda>tx. [0x01, 0x02])\<rparr>"

text \<open>
  A PSET with a wallet input of 1000 and an input of somebody else that carries no
  explicit amount, a blinded wallet output of 900 and a fee output of 150.
\<close>

definition wallet_utxo_json :: jobj where
  "wallet_utxo_json =
     [''txhash'' \<mapsto> JStr ''aa'', ''pt_idx'' \<mapsto> JNum 0, ''asset_id'' \<mapsto> JStr lbtc_asset,
      ''satoshi'' \<mapsto> JNum 1000, ''subaccount'' \<mapsto> JNum 0, ''pointer'' \<mapsto> JNum 3]"

definition sample_utxos :: wallet_utxos where
  "sample_utxos = UtxoByAsset [(lbtc_asset, [wallet_utxo_json])]"

definition wallet_psbt_input :: wally_psbt_input where
  "wallet_psbt_input =
     \<lparr>psbt_in_txhash = [0xaa], psbt_in_index = 0, psbt_in_sighash = 0,
      psbt_in_has_amount = False, psbt_in_amount = 0, psbt_in_utxo = None,
      psbt_in_witness_utxo = Some \<lparr>txout_satoshi = 0, txout_script = Some wallet_script\<rparr>,
      psbt_in_psbt_fields = Map.empty, psbt_in_pset_fields = Map.empty\<rparr>"

definition foreign_psbt_input :: wally_psbt_input where
  "foreign_psbt_input =
     \<lparr>psbt_in_txhash = [0xbb], psbt_in_index = 1, psbt_in_sighash = 0,
      psbt_in_has_amount = False, psbt_in_amount = 0, psbt_in_utxo = None,
      psbt_in_witness_utxo = Some \<lparr>txout_satoshi = 0, txout_script = Some other_script\<rparr>,
      psbt_in_psbt_fields = Map.empty, psbt_in_pset_fields = Map.empty\<rparr>"

definition blinded_fields :: "u32 \<rightharpoonup> byte list" where
  "blinded_fields =
     [out_value_commitment \<mapsto> [0x08], out_asset \<mapsto> lbtc_asset_bytes,
      out_asset_commitment \<mapsto> [0x0a], out_value_rangeproof \<mapsto> [0x60],
      out_asset_surjection_proof \<mapsto> [0x01], out_blinding_pubkey \<mapsto> [0x02],
      out_ecdh_pubkey \<mapsto> [0x03], out_blind_value_proof \<mapsto> [0x20],
      out_blind_asset_proof \<mapsto> [0x21]]"

definition wallet_psbt_output :: wally_psbt_output where
  "wallet_psbt_output =
     \<lparr>psbt_out_script = Some wallet_script, psbt_out_has_amount = True, psbt_out_amount = 900,
      psbt_out_psbt_fields = Map.empty, psbt_out_pset_fields = blinded_fields\<rparr>"

definition fee_psbt_output :: wally_psbt_output where
  "fee_psbt_output =
     \<lparr>psbt_out_script = None, psbt_out_has_amount = True, psbt_out_amount = 150,
      psbt_out_psbt_fields = Map.empty,
      psbt_out_pset_fields = [out_asset \<mapsto> lbtc_asset_bytes]\<rparr>"

definition sample_pset :: Psbt where
  "sample_pset =
     \<lparr>m_original_version = 2, m_psbt_is_liquid = True,
      m_psbt = \<lparr>psbt_version = 2, psbt_is_elements = True,
                psbt_inputs = [wallet_psbt_input, foreign_psbt_input],
                psbt_outputs = [wallet_psbt_output, fee_psbt_output],
                psbt_global = []\<rparr>\<rparr>"

text \<open>
  The transaction the sample PSET extracts to, before and after the enrichment of the
  inputs has put dummy signatures on the wallet's input, and the JSON the enrichment
  makes of its inputs and outputs.
\<close>

definition sample_tx0 :: wally_tx where
  "sample_tx0 =
     \<lparr>tx_version = 2,
      tx_inputs = [\<lparr>txin_txhash = [0xaa], txin_index = 0, txin_sequence = 0,
                    txin_script = None, txin_witness = None\<rparr>,
                   \<lparr>txin_txhash = [0xbb], txin_index = 1, txin_sequence = 0,
                    txin_script = None, txin_witness = None\<rparr>],
      tx_outputs = [\<lparr>txout_satoshi = 900, txout_script = Some wallet_script\<rparr>,
                    \<lparr>txout_satoshi = 150, txout_script = None\<rparr>]\<rparr>"

definition sample_tx1 :: wally_tx where
  "sample_tx1 =
     sample_tx0\<lparr>tx_inputs :=
       [\<lparr>txin_txhash = [0xaa], txin_index = 0, txin_sequence = 0,
         txin_script = Some [0], txin_witness = Some [[0], [0]]\<rparr>,
        \<lparr>txin_txhash = [0xbb], txin_index = 1, txin_sequence = 0,
         txin_script = None, txin_witness = None\<rparr>]\<rparr>"

definition sample_wallet_input_json :: jobj where
  "sample_wallet_input_json =
     [''txhash'' \<mapsto> JStr ''aa'', ''pt_idx'' \<mapsto> JNum 0, ''asset_id'' \<mapsto> JStr lbtc_asset,
      ''satoshi'' \<mapsto> JNum 1000, ''subaccount'' \<mapsto> JNum 0, ''pointer'' \<mapsto> JNum 3,
      ''user_path'' \<mapsto> JArr [JNum 1, JNum 7]]"

definition sample_inputs_json :: "jobj list" where
  "sample_inputs_json =
     [sample_wallet_input_json,
      [''txhash'' \<mapsto> JStr ''bb'', ''pt_idx'' \<mapsto> JNum 1, ''skip_signing'' \<mapsto> JBool True,
       ''error'' \<mapsto> JStr ''failed to unblind utxo'']]"

definition sample_wallet_output_json :: jobj where
  "sample_wallet_output_json =
     [''commitment'' \<mapsto> JStr ''08'', ''asset_tag'' \<mapsto> JStr ''0a'', ''range_proof'' \<mapsto> JStr ''60'',
      ''surj_proof'' \<mapsto> JStr ''01'', ''blinding_key'' \<mapsto> JStr ''02'',
      ''eph_public_key'' \<mapsto> JStr ''03'', ''value_blind_proof'' \<mapsto> JStr ''20'',
      ''asset_blind_proof'' \<mapsto> JStr ''21'', ''scriptpubkey'' \<mapsto> JStr ''002077'',
      ''subaccount'' \<mapsto> JNum 0, ''pointer'' \<mapsto> JNum 7, ''asset_id'' \<mapsto> JStr lbtc_asset,
      ''satoshi'' \<mapsto> JNum 900, ''address'' \<mapsto> JStr ''walletaddr'',
      ''user_path'' \<mapsto> JArr [JNum 1, JNum 7], ''is_confidential'' \<mapsto> JBool True]"

definition sample_fee_output_json :: jobj where
  "sample_fee_output_json =
     [''asset_id'' \<mapsto> JStr lbtc_asset, ''satoshi'' \<mapsto> JNum 150, ''scriptpubkey'' \<mapsto> JStr []]"

definition sample_outputs_json :: "jobj list" where
  "sample_outputs_json =
     [sample_wallet_output_json(''is_change'' \<mapsto> JBool False), sample_fee_output_json]"

definition sample_request :: "string \<rightharpoonup> wallet_utxos" where
  "sample_request = [''utxos'' \<mapsto> sample_utxos]"

definition sample_details :: jobj where
  "sample_details =
     [''transaction'' \<mapsto> JStr ''0200'',
      ''transaction_inputs'' \<mapsto> JArr (map JObj sample_inputs_json),
      ''transaction_outputs'' \<mapsto> JArr (map JObj sample_outputs_json),
      ''fee'' \<mapsto> JNum 150, ''network_fee'' \<mapsto> JNum 0,
      ''calculated_fee_rate'' \<mapsto> JNum 1000, ''txhash'' \<mapsto> JStr ''0201'',
      ''fee_rate'' \<mapsto> JNum 1000, ''is_blinded'' \<mapsto> JBool True,
      ''utxo_strategy'' \<mapsto> JStr ''manual'']"

text \<open>
  The sample PSET without the input of somebody else: the wallet's 1000 go to an
  output of 900 and a fee of 150.
\<close>

definition unbalanced_pset :: Psbt where
  "unbalanced_pset =
     \<lparr>m_original_version = 2, m_psbt_is_liquid = True,
      m_psbt = \<lparr>psbt_version = 2, psbt_is_elements = True,
                psbt_inputs = [wallet_psbt_input],
                psbt_outputs = [wallet_psbt_output, fee_psbt_output],
                psbt_global = []\<rparr>\<rparr>"

definition unbalanced_tx0 :: wally_tx where
  "unbalanced_tx0 =
     \<lparr>tx_version = 2,
      tx_inputs = [\<lparr>txin_txhash = [0xaa], txin_index = 0, txin_sequence = 0,
                    txin_script = None, txin_witness = None\<rparr>],
      tx_outputs = [\<lparr>txout_satoshi = 900, txout_script = Some wallet_script\<rparr>,
                    \<lparr>txout_satoshi = 150, txout_script = None\<rparr>]\<rparr>"

definition unbalanced_tx1 :: wally_tx where
  "unbalanced_tx1 =
     unbalanced_tx0\<lparr>tx_inputs :=
       [\<lparr>txin_txhash = [0xaa], txin_index = 0, txin_sequence = 0,
         txin_script = Some [0], txin_witness = Some [[0], [0]]\<rparr>]\<rparr>"

text \<open>
  The sample PSET whose second input, still not the wallet's, has an explicit amount,
  the explicit asset and the value proof, and no asset proof.
\<close>

definition missing_proof_input :: wally_psbt_input where
  "missing_proof_input =
     \<lparr>psbt_in_txhash = [0xbb], psbt_in_index = 1, psbt_in_sighash = 0,
      psbt_in_has_amount = True, psbt_in_amount = 500, psbt_in_utxo = None,
      psbt_in_witness_utxo = Some \<lparr>txout_satoshi = 0, txout_script = Some other_script\<rparr>,
      psbt_in_psbt_fields = Map.empty,
      psbt_in_pset_fields = [in_explicit_asset \<mapsto> lbtc_asset_bytes, in_value_proof \<mapsto> [0x20]]\<rparr>"

definition missing_proof_pset :: Psbt where
  "missing_proof_pset =
     \<lparr>m_original_version = 2, m_psbt_is_liquid = True,
      m_psbt = \<lparr>psbt_version = 2, psbt_is_elements = True,
                psbt_inputs = [wallet_psbt_input, missing_proof_input],
                psbt_outputs = [wallet_psbt_output, fee_psbt_output],
                psbt_global = []\<rparr>\<rparr>"


definition change_pset :: Psbt where
  "change_pset =
     \<lparr>m_original_version = 2, m_psbt_is_liquid = True,
      m_psbt = \<lparr>psbt_version = 2, psbt_is_elements = True,
                psbt_inputs = [wallet_psbt_input],
                psbt_outputs = [wallet_psbt_output\<lparr>psbt_out_amount := 300\<rparr>,
                                wallet_psbt_output\<lparr>psbt_out_amount := 400\<rparr>,
                                wallet_psbt_output\<lparr>psbt_out_amount := 200\<rparr>,
                                fee_psbt_output\<lparr>psbt_out_amount := 100\<rparr>],
                psbt_global = []\<rparr>\<rparr>"

definition change_tx0 :: wally_tx where
  "change_tx0 =
     \<lparr>tx_version = 2,
      tx_inputs = [\<lparr>txin_txhash = [0xaa], txin_index = 0, txin_sequence = 0,
                    txin_script = None, txin_witness = None\<rparr>],
      tx_outputs = [\<lparr>txout_satoshi = 300, txout_script = Some wallet_script\<rparr>,
                    \<lparr>txout_satoshi = 400, txout_script = Some wallet_script\<rparr>,
                    \<lparr>txout_satoshi = 200, txout_script = Some wallet_script\<rparr>,
                    \<lparr>txout_satoshi = 100, txout_script = None\<rparr>]\<rparr>"









section \<open>Properties of the signer\<close>

subsection \<open>Basic facts about results\<close>

lemma bind_result_Inr [simp]: "bind_result (Inr x) f = f x"
  by (simp add: bind_result_def)

lemma bind_result_Inl [simp]: "bind_result (Inl e) f = Inl e"
  by (simp add: bind_result_def)

lemma bind_result_eq_Inr:
  "bind_result m f = Inr y \<longleftrightarrow> (\<exists>x. m = Inr x \<and> f x = Inr y)"
  by (cases m) simp_all

subsection \<open>The cache search\<close>

lemma has_cached_parent_iff:
  "has_cached_parent cache p \<longleftrightarrow>
     (\<exists>k\<le>length p. cache (take k p) \<noteq> None \<and> (\<forall>c\<in>set (drop k p). \<not> is_hardened c))"
proof (induction cache p rule: has_cached_parent.induct)
  case (1 cache p)
  show ?case
  proof (cases "cache p")
    case (Some x)
    then show ?thesis
      by (subst has_cached_parent.simps) (auto intro: exI [of _ "length p"])
  next
    case None
    show ?thesis
    proof (cases "p = [] \<or> is_hardened (last p)")
      case True
      have "\<not> (\<exists>k\<le>length p. cache (take k p) \<noteq> None \<and> (\<forall>c\<in>set (drop k p). \<not> is_hardened c))"
      proof
        assume "\<exists>k\<le>length p. cache (take k p) \<noteq> None \<and> (\<forall>c\<in>set (drop k p). \<not> is_hardened c)"
        then obtain k where k: "k \<le> length p" "cache (take k p) \<noteq> None"
          "\<forall>c\<in>set (drop k p). \<not> is_hardened c" by blast
        from k(2) None have "k \<noteq> length p" by auto
        with k(1) have lt: "k < length p" by simp
        then have "p \<noteq> []" by auto
        with True have h: "is_hardened (last p)" by simp
        from lt have "last p \<in> set (drop k p)"
          by (metis drop_eq_Nil last_drop last_in_set not_le)
        with k(3) h show False by blast
      qed
      with None True show ?thesis
        by (subst has_cached_parent.simps) simp
    next
      case False
      then have ne: "p \<noteq> []" and nh: "\<not> is_hardened (last p)" by auto
      have IH: "has_cached_parent cache (butlast p) \<longleftrightarrow>
        (\<exists>k\<le>length (butlast p). cache (take k (butlast p)) \<noteq> None \<and>
           (\<forall>c\<in>set (drop k (butlast p)). \<not> is_hardened c))"
        using "1.IH" [OF None] False by simp
      have p: "p = butlast p @ [last p]" using ne by simp
      have "(\<exists>k\<le>length p. cache (take k p) \<noteq> None \<and> (\<forall>c\<in>set (drop k p). \<not> is_hardened c))
        \<longleftrightarrow> (\<exists>k\<le>length (butlast p). cache (take k (butlast p)) \<noteq> None \<and>
           (\<forall>c\<in>set (drop k (butlast p)). \<not> is_hardened c))" (is "?L \<longleftrightarrow> ?R")
      proof
        assume ?L
        then obtain k where k: "k \<le> length p" "cache (take k p) \<noteq> None"
          "\<forall>c\<in>set (drop k p). \<not> is_hardened c" by blast
        from k(2) None have "k \<noteq> length p" by auto
        with k(1) have lt: "k \<le> length (butlast p)" by simp
        have t: "take k p = take k (butlast p)" using lt
          by (metis p take_append append_Nil2 diff_is_0_eq' take_0)
        have "set (drop k (butlast p)) \<subseteq> set (drop k p)"
          by (metis butlast_drop in_set_butlastD subsetI)
        with k t lt show ?R by auto
      next
        assume ?R
        then obtain k where k: "k \<le> length (butlast p)" "cache (take k (butlast p)) \<noteq> None"
          "\<forall>c\<in>set (drop k (butlast p)). \<not> is_hardened c" by blast
        have t: "take k p = take k (butlast p)" using k(1)
          by (metis p take_append append_Nil2 diff_is_0_eq' take_0)
        have "drop k p = drop k (butlast p) @ [last p]" using k(1)
          by (metis p drop_append diff_is_0_eq' drop_0)
        with k t nh have "k \<le> length p \<and> cache (take k p) \<noteq> None \<and> (\<forall>c\<in>set (drop k p). \<not> is_hardened c)"
          by auto
        then show ?L by blast
      qed
      with IH None False show ?thesis
        by (subst has_cached_parent.simps) simp
    qed
  qed
qed

text \<open>
  Claim C6.  \<open>has_bip32_xpub(path)\<close> is true exactly when the signer holds a master
  key, or the cache holds the path itself, or the cache holds a proper prefix of the
  path and every component after that prefix is non-hardened.
\<close>

theorem has_bip32_xpub_iff:
  "has_bip32_xpub s path \<longleftrightarrow>
     m_master_key s \<noteq> None
     \<or> path \<in> dom (m_cached_bip32_xpubs s)
     \<or> (\<exists>k<length path. take k path \<in> dom (m_cached_bip32_xpubs s)
           \<and> (\<forall>c\<in>set (drop k path). \<not> is_hardened c))"
proof -
  let ?cache = "m_cached_bip32_xpubs s"
  have "(\<exists>k\<le>length path. ?cache (take k path) \<noteq> None \<and> (\<forall>c\<in>set (drop k path). \<not> is_hardened c))
    \<longleftrightarrow> path \<in> dom ?cache
        \<or> (\<exists>k<length path. take k path \<in> dom ?cache \<and> (\<forall>c\<in>set (drop k path). \<not> is_hardened c))"
    (is "?L \<longleftrightarrow> ?R")
  proof
    assume ?L
    then obtain k where k: "k \<le> length path" "?cache (take k path) \<noteq> None"
      "\<forall>c\<in>set (drop k path). \<not> is_hardened c" by blast
    show ?R
    proof (cases "k = length path")
      case True
      with k(2) show ?thesis by (auto simp: dom_def)
    next
      case False
      with k have "k < length path \<and> take k path \<in> dom ?cache
        \<and> (\<forall>c\<in>set (drop k path). \<not> is_hardened c)" by (auto simp: dom_def)
      then show ?thesis by blast
    qed
  next
    assume ?R
    then show ?L
    proof
      assume "path \<in> dom ?cache"
      then have "length path \<le> length path \<and> ?cache (take (length path) path) \<noteq> None
        \<and> (\<forall>c\<in>set (drop (length path) path). \<not> is_hardened c)" by (auto simp: dom_def)
      then show ?L by blast
    next
      assume "\<exists>k<length path. take k path \<in> dom ?cache \<and> (\<forall>c\<in>set (drop k path). \<not> is_hardened c)"
      then obtain k where "k < length path" "take k path \<in> dom ?cache"
        "\<forall>c\<in>set (drop k path). \<not> is_hardened c" by blast
      then have "k \<le> length path \<and> ?cache (take k path) \<noteq> None
        \<and> (\<forall>c\<in>set (drop k path). \<not> is_hardened c)" by (auto simp: dom_def)
      then show ?L by blast
    qed
  qed
  then show ?thesis
    by (simp add: has_bip32_xpub_def has_cached_parent_iff)
qed

theorem has_bip32_xpub_iff_witness:
  "has_bip32_xpub watch_only_keys [harden 84, harden 0, harden 0, 0, 5]
   \<and> \<not> has_bip32_xpub watch_only_keys [harden 84, harden 0, harden 0, harden 1, 5]
   \<and> \<not> has_bip32_xpub watch_only_keys [harden 84, harden 0]"
proof -
  have a: "has_bip32_xpub watch_only_keys [harden 84, harden 0, harden 0, 0, 5]"
    unfolding has_bip32_xpub_iff [of watch_only_keys "[harden 84, harden 0, harden 0, 0, 5]"]
    by (rule disjI2, rule disjI2, rule exI [of _ 3])
       (simp add: watch_only_keys_def is_hardened_def)
  have b: "\<not> has_bip32_xpub watch_only_keys [harden 84, harden 0, harden 0, harden 1, 5]"
    unfolding has_bip32_xpub_iff [of watch_only_keys "[harden 84, harden 0, harden 0, harden 1, 5]"]
    by (auto simp: watch_only_keys_def is_hardened_def harden_def less_Suc_eq)
  have c: "\<not> has_bip32_xpub watch_only_keys [harden 84, harden 0]"
    unfolding has_bip32_xpub_iff [of watch_only_keys "[harden 84, harden 0]"]
    by (auto simp: watch_only_keys_def is_hardened_def harden_def less_Suc_eq)
  from a b c show ?thesis by blast
qed

subsection \<open>Insertion into the cache and repeated lookups\<close>

lemma find_parent_hit:
  "cache p = Some v \<Longrightarrow> find_parent cache p cp = (p, cp, Some v)"
  by (subst find_parent.simps) simp

lemma find_parent_stop:
  "cache p = None \<Longrightarrow> p = [] \<or> is_hardened (last p) \<Longrightarrow> find_parent cache p cp = (p, cp, None)"
  by (subst find_parent.simps) simp

lemma find_parent_step:
  "cache p = None \<Longrightarrow> p \<noteq> [] \<Longrightarrow> \<not> is_hardened (last p) \<Longrightarrow>
   find_parent cache p cp = find_parent cache (butlast p) (last p # cp)"
  by (subst find_parent.simps) simp

lemma find_parent_props:
  "find_parent cache pp cp = (pp', cp', c) \<Longrightarrow> pp' @ cp' = pp @ cp \<and> c = cache pp'"
proof (induction cache pp cp rule: find_parent.induct)
  case (1 cache pp cp)
  show ?case
  proof (cases "cache pp")
    case (Some v)
    with "1.prems" show ?thesis by (simp add: find_parent_hit)
  next
    case None
    show ?thesis
    proof (cases "pp = [] \<or> is_hardened (last pp)")
      case True
      with None "1.prems" show ?thesis by (simp add: find_parent_stop)
    next
      case False
      with None "1.prems" have "find_parent cache (butlast pp) (last pp # cp) = (pp', cp', c)"
        by (simp add: find_parent_step)
      from "1.IH" [OF None False this] False show ?thesis by simp
    qed
  qed
qed

lemma cache_bip32_xpub_Inr:
  "cache_bip32_xpub s p x = Inr (b, s') \<Longrightarrow>
     m_cached_bip32_xpubs s' p = Some x
     \<and> m_cached_bip32_xpubs s \<subseteq>\<^sub>m m_cached_bip32_xpubs s'"
  by (auto simp: cache_bip32_xpub_def map_le_def split: option.splits if_splits)

lemma cache_ext_key_Inr:
  "cache_ext_key w s p k = Inr (v, s') \<Longrightarrow>
     m_cached_bip32_xpubs s' p = Some v
     \<and> m_cached_bip32_xpubs s \<subseteq>\<^sub>m m_cached_bip32_xpubs s'
     \<and> (\<exists>key. k = Some key \<and> v = bip32_xpub_of w key)"
  by (cases k)
     (auto simp: cache_ext_key_def Let_def bind_result_eq_Inr dest: cache_bip32_xpub_Inr)

lemma derive_from_parent_cached:
  assumes "derive_from_parent w s p pp cp pk0 = Inr (v, s')"
    and "pp @ cp = p" and "pk0 \<noteq> None \<longrightarrow> cp \<noteq> []"
  shows "m_cached_bip32_xpubs s' p = Some v"
proof (cases "p = []")
  case True
  with assms(1) show ?thesis
    by (auto simp: derive_from_parent_def dest: cache_ext_key_Inr)
next
  case False
  show ?thesis
  proof (cases "pp \<noteq> [] \<and> pk0 = None")
    case True
    with assms(1) False obtain mk pk xp s1 where
      mk: "m_master_key s = Some mk"
      and pk: "derive w mk pp BIP32_FLAG_KEY_PUBLIC = Inr pk"
      and c1: "cache_ext_key w s pp (Some pk) = Inr (xp, s1)"
      and rest: "(if cp = [] then Inr (bip32_xpub_of w pk, s1)
                  else bind_result (derive w pk cp BIP32_FLAG_KEY_PUBLIC)
                         (\<lambda>child_key. cache_ext_key w s1 p (Some child_key))) = Inr (v, s')"
      by (auto simp: derive_from_parent_def bind_result_eq_Inr split: option.splits)
    show ?thesis
    proof (cases "cp = []")
      case True
      with rest assms(2) cache_ext_key_Inr [OF c1] show ?thesis by auto
    next
      case False
      with rest show ?thesis
        by (auto simp: bind_result_eq_Inr dest: cache_ext_key_Inr)
    qed
  next
    case nd: False
    have cpne: "cp \<noteq> []"
    proof (cases pk0)
      case None
      with nd have "pp = []" by simp
      with assms(2) False show ?thesis by simp
    next
      case (Some k)
      with assms(3) show ?thesis by simp
    qed
    from assms(1) False nd cpne show ?thesis
      by (auto simp: derive_from_parent_def bind_result_eq_Inr
               split: option.splits if_splits dest: cache_ext_key_Inr)
  qed
qed

lemma get_bip32_xpub_result_cached:
  assumes "get_bip32_xpub w s p = Inr (v, s')"
  shows "m_cached_bip32_xpubs s' p = Some v"
proof -
  obtain pp cp c where fp: "find_parent (m_cached_bip32_xpubs s) p [] = (pp, cp, c)"
    by (cases "find_parent (m_cached_bip32_xpubs s) p []") auto
  from find_parent_props [OF fp] have app: "pp @ cp = p" and c: "c = m_cached_bip32_xpubs s pp"
    by simp_all
  show ?thesis
  proof (cases c)
    case None
    with assms fp have "derive_from_parent w s p pp cp None = Inr (v, s')"
      by (simp add: get_bip32_xpub_def)
    from derive_from_parent_cached [OF this app] show ?thesis by simp
  next
    case (Some xpub)
    show ?thesis
    proof (cases "cp = []")
      case True
      with assms fp Some app c show ?thesis
        by (auto simp: get_bip32_xpub_def)
    next
      case False
      with assms fp Some obtain k where
        "derive_from_parent w s p pp cp (Some k) = Inr (v, s')"
        by (auto simp: get_bip32_xpub_def bind_result_eq_Inr)
      from derive_from_parent_cached [OF this app] False show ?thesis by simp
    qed
  qed
qed

lemma get_bip32_xpub_of_cached:
  "m_cached_bip32_xpubs s p = Some v \<Longrightarrow> get_bip32_xpub w s p = Inr (v, s)"
  by (simp add: get_bip32_xpub_def find_parent_hit)

subsection \<open>Two sibling keys under a hardened account\<close>

lemma get_bip32_xpub_two_children:
  assumes mk: "m_master_key s = Some mk" and empty: "m_cached_bip32_xpubs s = Map.empty"
    and pk: "derive w mk [harden 84, harden 0, harden 0] BIP32_FLAG_KEY_PUBLIC = Inr pk"
    and c5: "derive w pk [0, 5] BIP32_FLAG_KEY_PUBLIC = Inr c5"
    and pk': "bip32_public_key_from_bip32_xpub w (bip32_xpub_of w pk) = Inr pk'"
    and c6: "derive w pk' [0, 6] BIP32_FLAG_KEY_PUBLIC = Inr c6"
  defines "s1 \<equiv> s\<lparr>m_cached_bip32_xpubs :=
                     [[harden 84, harden 0, harden 0] \<mapsto> bip32_xpub_of w pk,
                      [harden 84, harden 0, harden 0, 0, 5] \<mapsto> bip32_xpub_of w c5]\<rparr>"
  defines "s2 \<equiv> s\<lparr>m_cached_bip32_xpubs :=
                     [[harden 84, harden 0, harden 0] \<mapsto> bip32_xpub_of w pk,
                      [harden 84, harden 0, harden 0, 0, 5] \<mapsto> bip32_xpub_of w c5,
                      [harden 84, harden 0, harden 0, 0, 6] \<mapsto> bip32_xpub_of w c6]\<rparr>"
  shows "get_bip32_xpub w s [harden 84, harden 0, harden 0, 0, 5] = Inr (bip32_xpub_of w c5, s1)"
    and "get_bip32_xpub w s1 [harden 84, harden 0, harden 0, 0, 6] = Inr (bip32_xpub_of w c6, s2)"
    and "get_bip32_xpub w (s1\<lparr>m_master_key := None\<rparr>) [harden 84, harden 0, harden 0, 0, 6]
           = Inr (bip32_xpub_of w c6, s2\<lparr>m_master_key := None\<rparr>)"
proof -
  have h: "is_hardened (harden 0)" "\<not> is_hardened 0" "\<not> is_hardened 5" "\<not> is_hardened 6"
    by (simp_all add: is_hardened_def harden_def)
  have ne: "harden 0 \<noteq> (0 :: u32)" by (simp add: harden_def)
  have fp1: "find_parent Map.empty [harden 84, harden 0, harden 0, 0, 5] []
               = ([harden 84, harden 0, harden 0], [0, 5], None)"
    by (simp add: find_parent_step find_parent_stop h)
  show "get_bip32_xpub w s [harden 84, harden 0, harden 0, 0, 5] = Inr (bip32_xpub_of w c5, s1)"
    by (simp add: get_bip32_xpub_def empty fp1 derive_from_parent_def mk pk c5 cache_ext_key_def
          cache_bip32_xpub_def s1_def Let_def)
  have fp2: "find_parent [[harden 84, harden 0, harden 0] \<mapsto> bip32_xpub_of w pk,
                           [harden 84, harden 0, harden 0, 0, 5] \<mapsto> bip32_xpub_of w c5]
               [harden 84, harden 0, harden 0, 0, 6] []
               = ([harden 84, harden 0, harden 0], [0, 6], Some (bip32_xpub_of w pk))"
    by (simp add: find_parent_step find_parent_hit h)
  show "get_bip32_xpub w s1 [harden 84, harden 0, harden 0, 0, 6] = Inr (bip32_xpub_of w c6, s2)"
    by (simp add: s1_def s2_def get_bip32_xpub_def fp2 derive_from_parent_def pk' c6
          cache_ext_key_def cache_bip32_xpub_def Let_def)
  show "get_bip32_xpub w (s1\<lparr>m_master_key := None\<rparr>) [harden 84, harden 0, harden 0, 0, 6]
           = Inr (bip32_xpub_of w c6, s2\<lparr>m_master_key := None\<rparr>)"
    by (simp add: s1_def s2_def get_bip32_xpub_def fp2 derive_from_parent_def pk' c6
          cache_ext_key_def cache_bip32_xpub_def Let_def)
qed

text \<open>
  Claim C5, as the code has it.  On a signer with a master key and an empty cache,
  whose BIP32 primitives succeed on the derivations involved, \<open>get_bip32_xpub\<close> of
  \<open>[84h, 0h, 0h, 0, 5]\<close> and then of \<open>[84h, 0h, 0h, 0, 6]\<close> both succeed; afterwards the
  cache holds exactly the three paths \<open>[84h, 0h, 0h]\<close>, \<open>[84h, 0h, 0h, 0, 5]\<close> and
  \<open>[84h, 0h, 0h, 0, 6]\<close> (the master path \<open>[]\<close> is not added); and the second call derives
  from the cached parent xpub: it gives the same result on a signer that no longer has
  its master key.
\<close>

theorem get_bip32_xpub_caches_parent_and_children:
  assumes "m_master_key s = Some mk" and "m_cached_bip32_xpubs s = Map.empty"
    and "derive w mk [harden 84, harden 0, harden 0] BIP32_FLAG_KEY_PUBLIC = Inr pk"
    and "derive w pk [0, 5] BIP32_FLAG_KEY_PUBLIC = Inr c5"
    and "bip32_public_key_from_bip32_xpub w (bip32_xpub_of w pk) = Inr pk'"
    and "derive w pk' [0, 6] BIP32_FLAG_KEY_PUBLIC = Inr c6"
  shows "\<exists>s1 s2.
     get_bip32_xpub w s [harden 84, harden 0, harden 0, 0, 5] = Inr (bip32_xpub_of w c5, s1)
     \<and> get_bip32_xpub w s1 [harden 84, harden 0, harden 0, 0, 6] = Inr (bip32_xpub_of w c6, s2)
     \<and> dom (m_cached_bip32_xpubs s2) =
         {[harden 84, harden 0, harden 0], [harden 84, harden 0, harden 0, 0, 5],
          [harden 84, harden 0, harden 0, 0, 6]}
     \<and> m_cached_bip32_xpubs s1 [harden 84, harden 0, harden 0] = Some (bip32_xpub_of w pk)
     \<and> get_bip32_xpub w (s1\<lparr>m_master_key := None\<rparr>) [harden 84, harden 0, harden 0, 0, 6]
           = Inr (bip32_xpub_of w c6, s2\<lparr>m_master_key := None\<rparr>)"
  using get_bip32_xpub_two_children [OF assms]
  by (intro exI conjI) (assumption, assumption, auto)

lemmas toy_eval = derive_def toy_crypto_def is_hardened_def harden_def toy_component_def
  hex_char_def BIP32_FLAG_KEY_PUBLIC_def BIP32_FLAG_SKIP_HASH_def

lemma toy_derivations:
  "m_master_key software_keys = Some ''xprvM''"
  "m_cached_bip32_xpubs software_keys = Map.empty"
  "derive toy_crypto ''xprvM'' [harden 84, harden 0, harden 0] BIP32_FLAG_KEY_PUBLIC
     = Inr ''xpubM/54h/00h/00h''"
  "derive toy_crypto ''xpubM/54h/00h/00h'' [0, 5] BIP32_FLAG_KEY_PUBLIC
     = Inr ''xpubM/54h/00h/00h/00n/05n''"
  "bip32_public_key_from_bip32_xpub toy_crypto (bip32_xpub_of toy_crypto ''xpubM/54h/00h/00h'')
     = Inr ''xpubM/54h/00h/00h''"
  "derive toy_crypto ''xpubM/54h/00h/00h'' [0, 6] BIP32_FLAG_KEY_PUBLIC
     = Inr ''xpubM/54h/00h/00h/00n/06n''"
  by (simp_all add: toy_eval software_keys_def)

theorem get_bip32_xpub_caches_parent_and_children_witness:
  "\<exists>s1 s2.
     get_bip32_xpub toy_crypto software_keys [harden 84, harden 0, harden 0, 0, 5]
       = Inr (''xpubM/54h/00h/00h/00n/05n'', s1)
     \<and> get_bip32_xpub toy_crypto s1 [harden 84, harden 0, harden 0, 0, 6]
       = Inr (''xpubM/54h/00h/00h/00n/06n'', s2)
     \<and> dom (m_cached_bip32_xpubs s2) =
         {[harden 84, harden 0, harden 0], [harden 84, harden 0, harden 0, 0, 5],
          [harden 84, harden 0, harden 0, 0, 6]}
     \<and> get_bip32_xpub toy_crypto (s1\<lparr>m_master_key := None\<rparr>) [harden 84, harden 0, harden 0, 0, 6]
           = Inr (''xpubM/54h/00h/00h/00n/06n'', s2\<lparr>m_master_key := None\<rparr>)"
proof -
  have x: "bip32_xpub_of toy_crypto ''xpubM/54h/00h/00h/00n/05n'' = ''xpubM/54h/00h/00h/00n/05n''"
    "bip32_xpub_of toy_crypto ''xpubM/54h/00h/00h/00n/06n'' = ''xpubM/54h/00h/00h/00n/06n''"
    by (simp_all add: toy_crypto_def)
  from get_bip32_xpub_caches_parent_and_children [OF toy_derivations]
  show ?thesis unfolding x by blast
qed

text \<open>
  Claim C5 as the spec states it asks for four cached paths, the master path \<open>[]\<close>
  among them.  On the sample software signer the two calls succeed and the cache they
  leave has the three other paths and no entry for \<open>[]\<close>.
\<close>

theorem master_path_not_cached_counterexample:
  "get_bip32_xpub toy_crypto software_keys [harden 84, harden 0, harden 0, 0, 5]
     = Inr (''xpubM/54h/00h/00h/00n/05n'', two_entry_keys)
   \<and> get_bip32_xpub toy_crypto two_entry_keys [harden 84, harden 0, harden 0, 0, 6]
       = Inr (''xpubM/54h/00h/00h/00n/06n'', three_entry_keys)
   \<and> m_cached_bip32_xpubs three_entry_keys [] = None"
proof -
  note t = get_bip32_xpub_two_children [OF toy_derivations]
  from t(1) have a: "get_bip32_xpub toy_crypto software_keys [harden 84, harden 0, harden 0, 0, 5]
     = Inr (''xpubM/54h/00h/00h/00n/05n'', two_entry_keys)"
    by (simp add: two_entry_keys_def toy_crypto_def)
  from t(2) have b: "get_bip32_xpub toy_crypto two_entry_keys [harden 84, harden 0, harden 0, 0, 6]
       = Inr (''xpubM/54h/00h/00h/00n/06n'', three_entry_keys)"
    by (simp add: two_entry_keys_def three_entry_keys_def toy_crypto_def)
  have c: "m_cached_bip32_xpubs three_entry_keys [] = None"
    by (simp add: three_entry_keys_def)
  from a b c show ?thesis by blast
qed

subsection \<open>Conflicting insertions and repeated lookups\<close>

text \<open>
  Claim C7.  After \<open>(p, x)\<close> has been inserted into the cache, inserting \<open>(p, y)\<close> fails
  the assertion when \<open>y\<close> differs from \<open>x\<close> and changes nothing when \<open>y\<close> is \<open>x\<close>.  Hence
  once \<open>get_bip32_xpub(p)\<close> has returned a value, every later call for \<open>p\<close> returns the
  same value, whatever else has been added to the cache in between.
\<close>

theorem cache_conflict_is_fatal:
  "(cache_bip32_xpub s p x = Inr (b, s1) \<longrightarrow>
      cache_bip32_xpub s1 p y = (if y = x then Inr (False, s1) else Inl assertion_error))
   \<and> (get_bip32_xpub w t p = Inr (v, t1) \<longrightarrow>
        m_cached_bip32_xpubs t1 \<subseteq>\<^sub>m m_cached_bip32_xpubs t2 \<longrightarrow>
        get_bip32_xpub w t2 p = Inr (v, t2))"
proof (intro conjI impI)
  assume "cache_bip32_xpub s p x = Inr (b, s1)"
  from cache_bip32_xpub_Inr [OF this] have "m_cached_bip32_xpubs s1 p = Some x" by simp
  then show "cache_bip32_xpub s1 p y = (if y = x then Inr (False, s1) else Inl assertion_error)"
    by (auto simp: cache_bip32_xpub_def)
next
  assume "get_bip32_xpub w t p = Inr (v, t1)"
    and le: "m_cached_bip32_xpubs t1 \<subseteq>\<^sub>m m_cached_bip32_xpubs t2"
  from get_bip32_xpub_result_cached [OF this(1)] have "m_cached_bip32_xpubs t1 p = Some v" .
  with le have "m_cached_bip32_xpubs t2 p = Some v"
    by (auto simp: map_le_def dom_def)
  then show "get_bip32_xpub w t2 p = Inr (v, t2)" by (rule get_bip32_xpub_of_cached)
qed

lemma cache_first_insertion:
  "cache_bip32_xpub software_keys [harden 84] ''xpubA'' = Inr (True, one_entry_keys)"
  by (simp add: cache_bip32_xpub_def software_keys_def one_entry_keys_def)

lemma toy_first_lookup:
  "get_bip32_xpub toy_crypto software_keys [harden 84, harden 0, harden 0, 0, 5]
     = Inr (''xpubM/54h/00h/00h/00n/05n'', two_entry_keys)"
  using get_bip32_xpub_two_children(1) [OF toy_derivations]
  by (simp add: two_entry_keys_def toy_crypto_def)

theorem cache_conflict_is_fatal_witness:
  "cache_bip32_xpub one_entry_keys [harden 84] ''xpubB'' = Inl assertion_error
   \<and> cache_bip32_xpub one_entry_keys [harden 84] ''xpubA'' = Inr (False, one_entry_keys)
   \<and> get_bip32_xpub toy_crypto two_entry_keys [harden 84, harden 0, harden 0, 0, 5]
       = Inr (''xpubM/54h/00h/00h/00n/05n'', two_entry_keys)"
proof -
  note ins = cache_conflict_is_fatal [THEN conjunct1, rule_format, OF cache_first_insertion]
  have a: "cache_bip32_xpub one_entry_keys [harden 84] ''xpubB'' = Inl assertion_error"
    using ins [of "''xpubB''"] by simp
  have b: "cache_bip32_xpub one_entry_keys [harden 84] ''xpubA'' = Inr (False, one_entry_keys)"
    using ins [of "''xpubA''"] by simp
  have c: "get_bip32_xpub toy_crypto two_entry_keys [harden 84, harden 0, harden 0, 0, 5]
       = Inr (''xpubM/54h/00h/00h/00n/05n'', two_entry_keys)"
    by (rule cache_conflict_is_fatal [THEN conjunct2, rule_format, OF toy_first_lookup map_le_refl])
  from a b c show ?thesis by blast
qed

subsection \<open>The master blinding key\<close>

text \<open>
  Claim C10.  \<open>set_master_blinding_key\<close> leaves the signer as it is on the empty
  string; a hex string that decodes to 64 bytes is stored as decoded; one that decodes
  to 32 bytes is stored behind 32 zero bytes; any other decoded length fails the
  assertion.
\<close>

theorem set_master_blinding_key_cases:
  "set_master_blinding_key s [] = Inr s
   \<and> (hex \<noteq> [] \<longrightarrow> h2b hex = Inr bs \<longrightarrow>
        set_master_blinding_key s hex =
          (if length bs = 64 then Inr (s\<lparr>m_master_blinding_key := Some bs\<rparr>)
           else if length bs = 32
           then Inr (s\<lparr>m_master_blinding_key := Some (replicate 32 0 @ bs)\<rparr>)
           else Inl assertion_error))"
  by (simp add: set_master_blinding_key_def SHA512_LEN_def Let_def)

lemma h2b_half_key: "h2b half_key_hex = Inr half_key_bytes"
  by (simp add: half_key_hex_def half_key_bytes_def hex_digit_def)

lemma h2b_full_key: "h2b (half_key_hex @ half_key_hex) = Inr (half_key_bytes @ half_key_bytes)"
  by (simp add: half_key_hex_def half_key_bytes_def hex_digit_def)

lemma h2b_short_key: "h2b ''0a0b'' = Inr [10, 11]"
  by (simp add: hex_digit_def)

theorem set_master_blinding_key_cases_witness:
  "set_master_blinding_key software_keys half_key_hex
     = Inr (software_keys\<lparr>m_master_blinding_key := Some (replicate 32 0 @ half_key_bytes)\<rparr>)
   \<and> set_master_blinding_key software_keys (half_key_hex @ half_key_hex)
     = Inr (software_keys\<lparr>m_master_blinding_key := Some (half_key_bytes @ half_key_bytes)\<rparr>)
   \<and> set_master_blinding_key software_keys ''0a0b'' = Inl assertion_error"
proof -
  have ne: "half_key_hex \<noteq> []" by (simp add: half_key_hex_def)
  have l: "length half_key_bytes = 32" by (simp add: half_key_bytes_def)
  from set_master_blinding_key_cases [of software_keys half_key_hex half_key_bytes]
    ne h2b_half_key l
  have a: "set_master_blinding_key software_keys half_key_hex
     = Inr (software_keys\<lparr>m_master_blinding_key := Some (replicate 32 0 @ half_key_bytes)\<rparr>)"
    by simp
  from set_master_blinding_key_cases [of software_keys "half_key_hex @ half_key_hex"
      "half_key_bytes @ half_key_bytes"] ne h2b_full_key l
  have b: "set_master_blinding_key software_keys (half_key_hex @ half_key_hex)
     = Inr (software_keys\<lparr>m_master_blinding_key := Some (half_key_bytes @ half_key_bytes)\<rparr>)"
    by simp
  from set_master_blinding_key_cases [of software_keys "''0a0b''" "[10, 11]"]
    h2b_short_key
  have c: "set_master_blinding_key software_keys ''0a0b'' = Inl assertion_error"
    by simp
  from a b c show ?thesis by blast
qed

subsection \<open>Construction and the Liquid capability\<close>

lemma get_credentials_json_null: "get_credentials_json w JNull = Inr JNull"
  by (simp add: get_credentials_json_def)

lemmas device_eval = get_device_json_def require_device_name_def select_device_json_def add_device_defaults_def
  j_str_or_empty_def json_of_level_def liquid_support_level_lite_def
  liquid_support_level_none_def ae_protocol_support_level_none_def

lemma get_device_json_ledger: "get_device_json hardware_no_liquid JNull = Inr ledger_device"
  by (simp add: device_eval hardware_no_liquid_def ledger_device_def)

lemma get_device_json_jade: "get_device_json hardware_jade JNull = Inr jade_device"
  by (simp add: device_eval hardware_jade_def jade_device_def)

text \<open>
  The resolved descriptor always has a \<open>supports_liquid\<close> entry that is not null: a
  descriptor that says nothing about Liquid gets the level none.
\<close>

lemma json_add_if_missing_contains:
  "json_add_if_missing j k v ow = Inr j' \<Longrightarrow> json_contains j' k"
  by (cases j) (auto split: option.splits if_splits)

lemma json_add_if_missing_keeps:
  "json_add_if_missing j k v ow = Inr j' \<Longrightarrow> json_contains j k' \<Longrightarrow> json_contains j' k'"
  by (cases j) (auto split: option.splits if_splits)

lemma add_device_defaults_supports_liquid:
  assumes "add_device_defaults ret0 = Inr ret"
  shows "json_contains ret ''supports_liquid''"
proof -
  from assms obtain r4 r5 r6 where
    r5: "json_add_if_missing r4 ''supports_liquid'' (json_of_level liquid_support_level_none) True
           = Inr r5"
    and r6: "json_add_if_missing r5 ''supports_ae_protocol''
               (json_of_level ae_protocol_support_level_none) True = Inr r6"
    and r7: "json_add_if_missing r6 ''device_type'' (JStr ''hardware'') True = Inr ret"
    by (auto simp: add_device_defaults_def bind_result_eq_Inr)
  from json_add_if_missing_contains [OF r5] have "json_contains r5 ''supports_liquid''" .
  from json_add_if_missing_keeps [OF r6 this] have "json_contains r6 ''supports_liquid''" .
  from json_add_if_missing_keeps [OF r7 this] show ?thesis .
qed

lemma require_device_name_Inr:
  assumes "require_device_name ret = Inr d"
  shows "d = ret"
proof (cases "json_value ret ''name'' (JStr [])")
  case (Inl e)
  with assms show ?thesis by (simp add: require_device_name_def)
next
  case (Inr name)
  with assms show ?thesis
    by (cases name) (simp_all add: require_device_name_def split: if_splits)
qed

lemma get_device_json_supports_liquid:
  assumes "get_device_json hw_device credentials = Inr device"
  shows "json_contains device ''supports_liquid''"
proof (cases "select_device_json hw_device credentials")
  case (Inl e)
  with assms show ?thesis by (simp add: get_device_json_def)
next
  case r0: (Inr ret0)
  show ?thesis
  proof (cases "add_device_defaults ret0")
    case (Inl e)
    with assms r0 show ?thesis by (simp add: get_device_json_def)
  next
    case r: (Inr ret)
    show ?thesis
    proof (cases "j_str_or_empty ret ''device_type''")
      case (Inl e)
      with assms r0 r show ?thesis by (simp add: get_device_json_def)
    next
      case (Inr device_type)
      with assms r0 r have "device = ret \<or> device = GREEN_DEVICE_JSON"
        by (auto simp: get_device_json_def split: if_splits dest: require_device_name_Inr)
      with add_device_defaults_supports_liquid [OF r] show ?thesis
        by (auto simp: GREEN_DEVICE_JSON_def)
    qed
  qed
qed

text \<open>
  Claim C8.  On a Liquid network, when the credentials and the device descriptor
  resolve and the descriptor's \<open>supports_liquid\<close> is none, construction fails with the
  user error \<open>id_the_hardware_wallet_you_are\<close>; at any other level construction goes
  on to load the seed, and succeeds when the credentials hold none.
\<close>

theorem signer_ctor_liquid_support:
  assumes "get_credentials_json w credentials = Inr creds"
    and "get_device_json hw_device creds = Inr device"
    and "is_liquid net_params"
    and "get_liquid_support_of device = Inr level"
  shows "signer_ctor w net_params hw_device credentials =
           (if level = liquid_support_level_none
            then Inl (user_error id_the_hardware_wallet_you_are)
            else load_seed w
                   \<lparr>m_is_main_net = is_main_net net_params, m_is_liquid = True,
                    m_btc_version = btc_version net_params, m_credentials = creds,
                    m_device = device, m_master_key = None, m_master_blinding_key = None,
                    m_cached_bip32_xpubs = Map.empty\<rparr>)
         \<and> (level \<noteq> liquid_support_level_none \<and> j_str creds ''seed'' = Inr None \<longrightarrow>
              signer_ctor w net_params hw_device credentials =
                Inr \<lparr>m_is_main_net = is_main_net net_params, m_is_liquid = True,
                     m_btc_version = btc_version net_params, m_credentials = creds,
                     m_device = device, m_master_key = None, m_master_blinding_key = None,
                     m_cached_bip32_xpubs = Map.empty\<rparr>)"
  using assms
  by (simp add: signer_ctor_def get_liquid_support_def Let_def load_seed_def)

theorem signer_ctor_liquid_support_witness:
  "signer_ctor toy_crypto liquid_params hardware_no_liquid JNull
     = Inl (user_error id_the_hardware_wallet_you_are)
   \<and> signer_ctor toy_crypto liquid_params hardware_jade JNull
     = Inr \<lparr>m_is_main_net = True, m_is_liquid = True, m_btc_version = 57,
            m_credentials = JNull, m_device = jade_device, m_master_key = None,
            m_master_blinding_key = None, m_cached_bip32_xpubs = Map.empty\<rparr>"
proof -
  have liq: "is_liquid liquid_params" by (simp add: liquid_params_def)
  have l0: "get_liquid_support_of ledger_device = Inr liquid_support_level_none"
    by (simp add: get_liquid_support_of_def ledger_device_def liquid_support_level_none_def)
  have l1: "get_liquid_support_of jade_device = Inr liquid_support_level_lite"
    by (simp add: get_liquid_support_of_def jade_device_def liquid_support_level_lite_def)
  have ne: "liquid_support_level_lite \<noteq> liquid_support_level_none"
    by (simp add: liquid_support_level_lite_def liquid_support_level_none_def)
  have a: "signer_ctor toy_crypto liquid_params hardware_no_liquid JNull
     = Inl (user_error id_the_hardware_wallet_you_are)"
    using signer_ctor_liquid_support [OF get_credentials_json_null get_device_json_ledger liq l0,
        of toy_crypto]
    by simp
  have b: "signer_ctor toy_crypto liquid_params hardware_jade JNull
     = Inr \<lparr>m_is_main_net = True, m_is_liquid = True, m_btc_version = 57,
            m_credentials = JNull, m_device = jade_device, m_master_key = None,
            m_master_blinding_key = None, m_cached_bip32_xpubs = Map.empty\<rparr>"
    using signer_ctor_liquid_support [OF get_credentials_json_null get_device_json_jade liq l1,
        of toy_crypto] ne
    by (simp add: liquid_params_def load_seed_def)
  from a b show ?thesis by blast
qed

subsection \<open>Compatibility of two signers\<close>

text \<open>
  What \<open>is_compatible_with\<close> computes: false when the device descriptors differ;
  otherwise both exported credentials must be objects for \<open>erase\<close> to work on them,
  and the answer is whether they agree once \<open>master_blinding_key\<close> is removed.
\<close>

lemma get_credentials_error:
  "get_credentials s = Inl e \<Longrightarrow> e = json_error"
  by (cases "m_credentials s")
     (auto simp: get_credentials_def split: if_splits option.splits)

lemma is_compatible_with_cases:
  "is_compatible_with a b =
     (if m_device a \<noteq> m_device b then Inr False
      else (case get_credentials a of
              Inr (JObj x) \<Rightarrow>
                (case get_credentials b of
                   Inr (JObj y) \<Rightarrow>
                     Inr (x(''master_blinding_key'' := None) = y(''master_blinding_key'' := None))
                 | _ \<Rightarrow> Inl json_error)
            | _ \<Rightarrow> Inl json_error))"
proof (cases "m_device a \<noteq> m_device b")
  case True
  then show ?thesis by (simp add: is_compatible_with_def)
next
  case False
  show ?thesis
  proof (cases "get_credentials a")
    case (Inl e)
    with False get_credentials_error [OF Inl] show ?thesis
      by (simp add: is_compatible_with_def)
  next
    case a: (Inr ja)
    show ?thesis
    proof (cases "get_credentials b")
      case (Inl e)
      with False a get_credentials_error [OF Inl] show ?thesis
        by (cases ja) (simp_all add: is_compatible_with_def)
    next
      case b: (Inr jb)
      with False a show ?thesis
        by (cases ja; cases jb) (simp_all add: is_compatible_with_def)
    qed
  qed
qed

lemma is_compatible_with_true_iff:
  "is_compatible_with a b = Inr True \<longleftrightarrow>
     m_device a = m_device b
     \<and> (\<exists>x y. get_credentials a = Inr (JObj x) \<and> get_credentials b = Inr (JObj y)
               \<and> x(''master_blinding_key'' := None) = y(''master_blinding_key'' := None))"
  unfolding is_compatible_with_cases
  by (auto split: sum.splits json.splits)

lemma is_compatible_with_different_devices:
  "m_device a \<noteq> m_device b \<Longrightarrow> is_compatible_with a b = Inr False"
  by (simp add: is_compatible_with_def)

lemma changed_flag_is_different_device:
  "m k \<noteq> Some v \<Longrightarrow> JObj (m(k \<mapsto> v)) \<noteq> JObj m"
  by (metis json.inject(5) map_upd_Some_unfold)

lemma software_signer_is_compatible_with_itself:
  "is_compatible_with software_keys software_keys = Inr True"
  by (simp add: is_compatible_with_def get_credentials_def software_keys_def)

text \<open>
  Claim C9 fails on signers without credentials.  A hardware signer is built from a
  device descriptor and empty credentials; \<open>get_credentials_json\<close> then keeps null, on
  Bitcoin \<open>get_credentials\<close> returns that null, and \<open>erase\<close> throws on it.  So comparing
  such a signer with an equal one does not return true: it throws.
\<close>

theorem is_compatible_with_throws_on_hardware_signers:
  "signer_ctor toy_crypto bitcoin_params hardware_jade JNull = Inr jade_signer
   \<and> is_compatible_with jade_signer jade_signer = Inl json_error"
proof -
  have "signer_ctor toy_crypto bitcoin_params hardware_jade JNull = Inr jade_signer"
    by (simp add: signer_ctor_def get_credentials_json_null get_device_json_jade
          bitcoin_params_def load_seed_def jade_signer_def)
  moreover have "is_compatible_with jade_signer jade_signer = Inl json_error"
    by (simp add: is_compatible_with_def get_credentials_def jade_signer_def)
  ultimately show ?thesis by blast
qed

section \<open>Properties of the PSBT code\<close>

subsection \<open>Round trip through base64\<close>









section \<open>Properties of the enrichment\<close>

subsection \<open>Inputs\<close>

lemma ensure_input_utxo_fields:
  assumes "ensure_input_utxo w session psbt_input txhash_hex = Inr (psbt_input', txin_utxo)"
  shows "psbt_in_has_amount psbt_input' = psbt_in_has_amount psbt_input
     \<and> psbt_in_amount psbt_input' = psbt_in_amount psbt_input
     \<and> psbt_in_pset_fields psbt_input' = psbt_in_pset_fields psbt_input
     \<and> psbt_in_psbt_fields psbt_input' = psbt_in_psbt_fields psbt_input
     \<and> psbt_in_index psbt_input' = psbt_in_index psbt_input
     \<and> psbt_in_sighash psbt_input' = psbt_in_sighash psbt_input"
  using assms
  by (auto simp: ensure_input_utxo_def wally_psbt_set_input_utxo_def bind_result_eq_Inr
           split: option.splits if_splits)

lemma set_pset_field_eq_Inr:
  "set_pset_field flds dst key k do_reverse = Inr d \<longleftrightarrow>
     (\<exists>val. flds k = Some val
            \<and> d = dst(key \<mapsto> JStr ((if do_reverse then b2h_rev else b2h) val)))"
  by (auto simp: set_pset_field_def split: option.splits)

lemma set_pset_field_missing:
  "flds k = None \<Longrightarrow> set_pset_field flds dst key k do_reverse = Inl (user_error (key @ '' not found''))"
  by (simp add: set_pset_field_def)

lemma non_wallet_input_skip_signing:
  assumes "non_wallet_input_to_json liquid psbt_input txin_utxo utxo0 = Inr utxo"
  shows "utxo ''skip_signing'' = Some (JBool True)"
  using assms
  by (auto simp: non_wallet_input_to_json_def Let_def bind_result_eq_Inr set_pset_field_eq_Inr
           split: if_splits option.splits)

lemma non_wallet_input_no_amount:
  assumes "non_wallet_input_to_json True psbt_input txin_utxo utxo0 = Inr utxo"
    and "\<not> psbt_in_has_amount psbt_input"
  shows "utxo ''error'' = Some (JStr ''failed to unblind utxo'')"
  using assms
  by (auto simp: non_wallet_input_to_json_def Let_def bind_result_eq_Inr
           split: if_splits option.splits)

lemma non_wallet_input_with_amount:
  assumes "non_wallet_input_to_json True psbt_input txin_utxo utxo0 = Inr utxo"
    and "psbt_in_has_amount psbt_input"
  shows "psbt_in_pset_fields psbt_input in_explicit_asset \<noteq> None
     \<and> psbt_in_pset_fields psbt_input in_value_proof \<noteq> None
     \<and> psbt_in_pset_fields psbt_input in_asset_proof \<noteq> None
     \<and> utxo ''error'' = utxo0 ''error''"
  using assms
  by (auto simp: non_wallet_input_to_json_def Let_def bind_result_eq_Inr set_pset_field_eq_Inr
           split: if_splits option.splits)

text \<open>An input is not the wallet's when no wallet UTXO matches its outpoint.\<close>

lemma input_to_json_step_non_wallet:
  assumes step: "input_to_json_step w session liquid utxos psbt_input txin
                   = Inr (utxo, asset, txin', psbt_input')"
    and txhash: "j_strref (JObj (input_to_json session txin)) ''txhash'' = Inr txhash_hex"
    and none: "find_wallet_utxo utxos txhash_hex (psbt_in_index psbt_input) = Inr None"
  shows "\<exists>txin_utxo psbt_input''.
           non_wallet_input_to_json liquid psbt_input'' txin_utxo (input_to_json session txin) = Inr utxo
           \<and> psbt_in_has_amount psbt_input'' = psbt_in_has_amount psbt_input
           \<and> psbt_in_pset_fields psbt_input'' = psbt_in_pset_fields psbt_input
           \<and> asset = None"
proof -
  from step txhash none obtain pi2 txin_utxo where
    e: "ensure_input_utxo w session psbt_input txhash_hex = Inr (pi2, txin_utxo)"
    and n: "non_wallet_input_to_json liquid pi2 txin_utxo (input_to_json session txin) = Inr utxo"
    and a: "asset = None"
    by (auto simp: input_to_json_step_def Let_def bind_result_eq_Inr)
  from ensure_input_utxo_fields [OF e] n a show ?thesis by blast
qed

lemma inputs_loop_char:
  assumes "inputs_loop w session liquid utxos indices (acc, assets, tx, psbt)
             = Inr (acc', assets', tx', psbt')"
    and "distinct indices"
  shows "length acc' = length acc + length indices
     \<and> take (length acc) acc' = acc
     \<and> length (psbt_inputs psbt') = length (psbt_inputs psbt)
     \<and> length (tx_inputs tx') = length (tx_inputs tx)
     \<and> (\<forall>i. i \<notin> set indices \<longrightarrow>
            psbt_inputs psbt' ! i = psbt_inputs psbt ! i \<and> tx_inputs tx' ! i = tx_inputs tx ! i)
     \<and> (\<forall>k<length indices.
            indices ! k < length (psbt_inputs psbt) \<and> indices ! k < length (tx_inputs tx)
            \<and> (\<exists>asset. input_to_json_step w session liquid utxos
                           (psbt_inputs psbt ! (indices ! k)) (tx_inputs tx ! (indices ! k))
                         = Inr (acc' ! (length acc + k), asset,
                                tx_inputs tx' ! (indices ! k), psbt_inputs psbt' ! (indices ! k))))"
  using assms
proof (induction indices arbitrary: acc assets tx psbt)
  case Nil
  then show ?case by simp
next
  case (Cons i rest)
  from Cons.prems(1) have ip: "i < length (psbt_inputs psbt)"
    by (simp split: if_splits)
  from Cons.prems(1) ip obtain utxo asset txin' pi' where
    it: "i < length (tx_inputs tx)"
    and step: "input_to_json_step w session liquid utxos (psbt_inputs psbt ! i) (tx_inputs tx ! i)
                 = Inr (utxo, asset, txin', pi')"
    and rest: "inputs_loop w session liquid utxos rest
                 (acc @ [utxo],
                  (case asset of Some a \<Rightarrow> insert a assets | None \<Rightarrow> assets),
                  tx\<lparr>tx_inputs := (tx_inputs tx)[i := txin']\<rparr>,
                  psbt\<lparr>psbt_inputs := (psbt_inputs psbt)[i := pi']\<rparr>)
               = Inr (acc', assets', tx', psbt')"
    by (auto simp: bind_result_eq_Inr tx_get_input_def split: if_splits)
  from Cons.prems(2) have d: "distinct rest" and ni: "i \<notin> set rest" by simp_all
  note IH = Cons.IH [OF rest d]
  from IH have len: "length acc' = length acc + length (i # rest)" by simp
  from IH have tk: "take (Suc (length acc)) acc' = acc @ [utxo]" by simp
  then have tk0: "take (length acc) acc' = acc"
    by (metis append_eq_conv_conj butlast_snoc butlast_take diff_Suc_1 length_append_singleton
        length_take min.absorb2 nat_le_linear take_all)
  from tk len have at0: "acc' ! length acc = utxo"
    by (metis length_append_singleton lessI nth_append_length nth_take)
  from IH have lp: "length (psbt_inputs psbt') = length (psbt_inputs psbt)"
    and lt: "length (tx_inputs tx') = length (tx_inputs tx)" by simp_all
  from IH ni ip it have ati: "psbt_inputs psbt' ! i = pi'" "tx_inputs tx' ! i = txin'"
    by simp_all
  have out: "\<forall>j. j \<notin> set (i # rest) \<longrightarrow>
      psbt_inputs psbt' ! j = psbt_inputs psbt ! j \<and> tx_inputs tx' ! j = tx_inputs tx ! j"
    using IH by auto
  have each: "\<forall>k<length (i # rest).
      (i # rest) ! k < length (psbt_inputs psbt) \<and> (i # rest) ! k < length (tx_inputs tx)
      \<and> (\<exists>asset. input_to_json_step w session liquid utxos
                     (psbt_inputs psbt ! ((i # rest) ! k)) (tx_inputs tx ! ((i # rest) ! k))
                   = Inr (acc' ! (length acc + k), asset,
                          tx_inputs tx' ! ((i # rest) ! k), psbt_inputs psbt' ! ((i # rest) ! k)))"
  proof (intro allI impI)
    fix k assume k: "k < length (i # rest)"
    show "(i # rest) ! k < length (psbt_inputs psbt) \<and> (i # rest) ! k < length (tx_inputs tx)
      \<and> (\<exists>asset. input_to_json_step w session liquid utxos
                     (psbt_inputs psbt ! ((i # rest) ! k)) (tx_inputs tx ! ((i # rest) ! k))
                   = Inr (acc' ! (length acc + k), asset,
                          tx_inputs tx' ! ((i # rest) ! k), psbt_inputs psbt' ! ((i # rest) ! k)))"
    proof (cases k)
      case 0
      with ip it step at0 ati show ?thesis by auto
    next
      case (Suc k')
      with k have k': "k' < length rest" by simp
      then have mem: "rest ! k' \<in> set rest" by simp
      with ni have neq: "rest ! k' \<noteq> i" by auto
      from IH k' obtain asset' where
        b: "rest ! k' < length (psbt_inputs psbt)" "rest ! k' < length (tx_inputs tx)"
        and s: "input_to_json_step w session liquid utxos
                  ((psbt_inputs psbt)[i := pi'] ! (rest ! k')) ((tx_inputs tx)[i := txin'] ! (rest ! k'))
                = Inr (acc' ! (length (acc @ [utxo]) + k'), asset',
                       tx_inputs tx' ! (rest ! k'), psbt_inputs psbt' ! (rest ! k'))"
        by auto
      from s neq have "input_to_json_step w session liquid utxos
                  (psbt_inputs psbt ! (rest ! k')) (tx_inputs tx ! (rest ! k'))
                = Inr (acc' ! (length acc + Suc k'), asset',
                       tx_inputs tx' ! (rest ! k'), psbt_inputs psbt' ! (rest ! k'))"
        by simp
      with b Suc show ?thesis by auto
    qed
  qed
  from len tk0 lp lt out each show ?case by blast
qed

lemma inputs_to_json_char:
  assumes "inputs_to_json w session this tx utxos = Inr (inputs, wallet_assets, tx', psbt')"
  shows "length inputs = get_num_inputs this
     \<and> (\<forall>i<get_num_inputs this.
            i < length (tx_inputs tx)
            \<and> (\<exists>asset. input_to_json_step w session (m_psbt_is_liquid this) utxos
                           (psbt_inputs (m_psbt this) ! i) (tx_inputs tx ! i)
                         = Inr (inputs ! i, asset, tx_inputs tx' ! i, psbt_inputs psbt' ! i)))"
proof -
  note c = inputs_loop_char [OF assms [unfolded inputs_to_json_def] distinct_upt]
  from c have "length inputs = get_num_inputs this" by simp
  moreover have "\<forall>i<get_num_inputs this.
            i < length (tx_inputs tx)
            \<and> (\<exists>asset. input_to_json_step w session (m_psbt_is_liquid this) utxos
                           (psbt_inputs (m_psbt this) ! i) (tx_inputs tx ! i)
                         = Inr (inputs ! i, asset, tx_inputs tx' ! i, psbt_inputs psbt' ! i))"
  proof (intro allI impI)
    fix i assume i: "i < get_num_inputs this"
    with c have "[0..<get_num_inputs this] ! i < length (tx_inputs tx)
      \<and> (\<exists>asset. input_to_json_step w session (m_psbt_is_liquid this) utxos
                     (psbt_inputs (m_psbt this) ! ([0..<get_num_inputs this] ! i))
                     (tx_inputs tx ! ([0..<get_num_inputs this] ! i))
                   = Inr (inputs ! (length ([] :: jobj list) + i), asset,
                          tx_inputs tx' ! ([0..<get_num_inputs this] ! i),
                          psbt_inputs psbt' ! ([0..<get_num_inputs this] ! i)))"
      by simp
    with i show "i < length (tx_inputs tx)
            \<and> (\<exists>asset. input_to_json_step w session (m_psbt_is_liquid this) utxos
                           (psbt_inputs (m_psbt this) ! i) (tx_inputs tx ! i)
                         = Inr (inputs ! i, asset, tx_inputs tx' ! i, psbt_inputs psbt' ! i))"
      by simp
  qed
  ultimately show ?thesis by blast
qed

subsection \<open>The sums and the structure of a successful call\<close>

text \<open>What the two loops of \<open>get_details\<close> compute on Liquid, in terms of the readings
  of the enriched inputs and outputs.\<close>

lemma sum_inputs_liquid:
  assumes "sum_inputs True policy_asset inputs (s0, e0, u0) = Inr (s, e, u)"
  shows "s = s0 + policy_inputs_sum policy_asset inputs
     \<and> (e \<noteq> [] \<longleftrightarrow> e0 \<noteq> [] \<or> (\<exists>j\<in>set inputs. input_error j \<noteq> []))
     \<and> (u \<longleftrightarrow> u0 \<or> (\<exists>j\<in>set inputs. input_error j \<noteq> [] \<and> \<not> input_skip_signing j))"
  using assms
proof (induction inputs arbitrary: s0 e0 u0)
  case Nil
  then show ?case by (simp add: policy_inputs_sum_def)
next
  case (Cons input rest)
  from Cons.prems obtain txin_error where
    err: "j_str_or_empty (JObj input) ''error'' = Inr txin_error"
    by (auto simp: bind_result_eq_Inr)
  then have ie: "input_error input = txin_error" by (simp add: input_error_def)
  show ?case
  proof (cases "txin_error = []")
    case False
    with Cons.prems err obtain skip where
      sk: "j_bool_or_false (JObj input) ''skip_signing'' = Inr skip"
      and r: "sum_inputs True policy_asset rest (s0, txin_error, if \<not> skip then True else u0)
                = Inr (s, e, u)"
      by (auto simp: bind_result_eq_Inr)
    from sk have iss: "input_skip_signing input = skip" by (auto simp: input_skip_signing_def)
    from Cons.IH [OF r] False ie iss show ?thesis
      by (auto simp: policy_inputs_sum_def)
  next
    case True
    with Cons.prems err obtain asset where
      a: "j_strref (JObj input) ''asset_id'' = Inr asset"
      by (auto simp: bind_result_eq_Inr j_assetref_def)
    then have ao: "asset_of input = asset" by (simp add: asset_of_def)
    show ?thesis
    proof (cases "asset = policy_asset")
      case False
      with Cons.prems err True a have
        r: "sum_inputs True policy_asset rest (s0, e0, u0) = Inr (s, e, u)"
        by (auto simp: bind_result_eq_Inr j_assetref_def)
      from Cons.IH [OF r] False ie ao True show ?thesis
        by (auto simp: policy_inputs_sum_def)
    next
      case pa: True
      with Cons.prems err True a obtain satoshi where
        v: "j_amountref (JObj input) = Inr satoshi"
        and r: "sum_inputs True policy_asset rest (s0 + satoshi, e0, u0) = Inr (s, e, u)"
        by (auto simp: bind_result_eq_Inr j_assetref_def)
      from v have so: "satoshi_of input = satoshi" by (simp add: satoshi_of_def)
      from Cons.IH [OF r] pa ie ao True so show ?thesis
        by (auto simp: policy_inputs_sum_def add.assoc)
    qed
  qed
qed

lemma sum_outputs_liquid:
  assumes "sum_outputs True policy_asset outputs (s0, f0) = Inr (s, f)"
  shows "s = s0 - policy_outputs_sum policy_asset outputs
     \<and> f = f0 + fee_outputs_sum policy_asset outputs"
  using assms
proof (induction outputs arbitrary: s0 f0)
  case Nil
  then show ?case by (simp add: policy_outputs_sum_def fee_outputs_sum_def)
next
  case (Cons txout rest)
  from Cons.prems obtain asset where
    a: "j_strref (JObj txout) ''asset_id'' = Inr asset"
    by (auto simp: bind_result_eq_Inr j_assetref_def)
  then have ao: "asset_of txout = asset" by (simp add: asset_of_def)
  show ?case
  proof (cases "asset = policy_asset")
    case False
    with Cons.prems a have r: "sum_outputs True policy_asset rest (s0, f0) = Inr (s, f)"
      by (auto simp: bind_result_eq_Inr j_assetref_def)
    from Cons.IH [OF r] False ao show ?thesis
      by (auto simp: policy_outputs_sum_def fee_outputs_sum_def)
  next
    case pa: True
    with Cons.prems a obtain is_fee satoshi where
      fee: "j_str_is_empty (JObj txout) ''scriptpubkey'' = Inr is_fee"
      and v: "j_amountref (JObj txout) = Inr satoshi"
      and r: "(if is_fee then sum_outputs True policy_asset rest (s0, f0 + satoshi)
               else sum_outputs True policy_asset rest (s0 - satoshi, f0)) = Inr (s, f)"
      by (auto simp: bind_result_eq_Inr j_assetref_def)
    from fee have fo: "is_fee_output txout = is_fee" by (auto simp: is_fee_output_def)
    from v have so: "satoshi_of txout = satoshi" by (simp add: satoshi_of_def)
    show ?thesis
    proof (cases is_fee)
      case True
      with r have "sum_outputs True policy_asset rest (s0, f0 + satoshi) = Inr (s, f)" by simp
      from Cons.IH [OF this] True pa ao fo so show ?thesis
        by (auto simp: policy_outputs_sum_def fee_outputs_sum_def add.assoc)
    next
      case False
      with r have "sum_outputs True policy_asset rest (s0 - satoshi, f0) = Inr (s, f)" by simp
      from Cons.IH [OF this] False pa ao fo so show ?thesis
        by (auto simp: policy_outputs_sum_def fee_outputs_sum_def diff_diff_eq)
    qed
  qed
qed

text \<open>A successful call of \<open>get_details\<close> has gone through every step; the assertion
  held, and the top level error is the one the input loop decided on unless
  \<open>update_tx_info\<close> has put one there already.\<close>

lemma get_details_Inr:
  assumes "get_details w session this details = Inr (result, this')"
  obtains tx0 utxos inputs wallet_assets tx psbt outputs inputs_total error use_error
    running explicit_fee result0 result1 where
    "Psbt_extract w this = Inr tx0"
    "details ''utxos'' = Some utxos"
    "inputs_to_json w session this tx0 utxos = Inr (inputs, wallet_assets, tx, psbt)"
    "this' = this\<lparr>m_psbt := psbt\<rparr>"
    "outputs_to_json w session this' tx wallet_assets = Inr outputs"
    "sum_inputs (m_psbt_is_liquid this) (get_policy_asset (get_network_parameters session))
       inputs (0, [], False) = Inr (inputs_total, error, use_error)"
    "sum_outputs (m_psbt_is_liquid this) (get_policy_asset (get_network_parameters session))
       outputs (inputs_total, 0) = Inr (running, explicit_fee)"
    "\<not> m_psbt_is_liquid this \<or> running = explicit_fee \<or> error \<noteq> []"
    "update_tx_info session tx result0 = Inr result1"
    "result ''error'' = (if use_error \<and> result1 ''error'' = None then Some (JStr error)
                         else result1 ''error'')"
    "result0 ''error'' = None"
proof -
  from assms obtain tx0 where a1: "Psbt_extract w this = Inr tx0"
    by (auto simp: get_details_def Let_def bind_result_eq_Inr)
  from assms a1 obtain utxos where a2: "details ''utxos'' = Some utxos"
    by (auto simp: get_details_def Let_def bind_result_eq_Inr split: option.splits)
  from assms a1 a2 obtain inputs wallet_assets tx psbt where
    a3: "inputs_to_json w session this tx0 utxos = Inr (inputs, wallet_assets, tx, psbt)"
    by (cases "inputs_to_json w session this tx0 utxos")
       (auto simp: get_details_def Let_def)
  from assms a1 a2 a3 obtain outputs where
    a4: "outputs_to_json w session (this\<lparr>m_psbt := psbt\<rparr>) tx wallet_assets = Inr outputs"
    by (cases "outputs_to_json w session (this\<lparr>m_psbt := psbt\<rparr>) tx wallet_assets")
       (auto simp: get_details_def Let_def)
  let ?liquid = "m_psbt_is_liquid this"
  let ?policy = "get_policy_asset (get_network_parameters session)"
  from assms a1 a2 a3 a4 obtain inputs_total error use_error where
    a5: "sum_inputs ?liquid ?policy inputs (0, [], False) = Inr (inputs_total, error, use_error)"
    by (cases "sum_inputs ?liquid ?policy inputs (0, [], False)")
       (auto simp: get_details_def Let_def)
  from assms a1 a2 a3 a4 a5 obtain running explicit_fee where
    a6: "sum_outputs ?liquid ?policy outputs (inputs_total, 0) = Inr (running, explicit_fee)"
    by (cases "sum_outputs ?liquid ?policy outputs (inputs_total, 0)")
       (auto simp: get_details_def Let_def)
  let ?result0 = "[''transaction'' \<mapsto> JStr (tx_to_hex session tx),
                 ''transaction_inputs'' \<mapsto> JArr (map JObj inputs),
                 ''transaction_outputs'' \<mapsto> JArr (map JObj outputs),
                 ''fee'' \<mapsto> JNum (uint (if ?liquid then explicit_fee else running)),
                 ''network_fee'' \<mapsto> JNum 0]"
  from assms a1 a2 a3 a4 a5 a6 have
    a7: "\<not> ?liquid \<or> running = explicit_fee \<or> error \<noteq> []"
    by (auto simp: get_details_def Let_def split: if_splits)
  from assms a1 a2 a3 a4 a5 a6 a7 obtain result1 where
    a8: "update_tx_info session tx ?result0 = Inr result1"
    by (cases "update_tx_info session tx ?result0")
       (auto simp: get_details_def Let_def split: if_splits)
  from assms a1 a2 a3 a4 a5 a6 a7 a8 have
    a9: "this' = this\<lparr>m_psbt := psbt\<rparr>"
    and a10: "result ''error'' = (if use_error \<and> result1 ''error'' = None then Some (JStr error)
                         else result1 ''error'')"
    by (auto simp: get_details_def Let_def bind_result_eq_Inr split: if_splits)
  have a11: "?result0 ''error'' = None" by simp
  from that [OF a1 a2 a3 a9 a4 [folded a9] a5 a6 a7 a8 a10 a11] show thesis .
qed

subsection \<open>Outputs and the change heuristic\<close>










text \<open>The final loop over the collected assets touches the first wallet output of each
  asset and nothing else; the first outputs of different assets are different, so the
  order of the assets does not matter.\<close>

lemma length_mark_change [simp]:
  "length (mark_change wallet_assets spent entry outs) = length outs"
  by (simp add: mark_change_def Let_def)

lemma length_fold_mark_change [simp]:
  "length (fold (mark_change wallet_assets spent) entries outs) = length outs"
  by (induction entries arbitrary: outs) simp_all






subsection \<open>The sample PSETs, evaluated\<close>

text \<open>
  The enrichment of the sample PSETs, step by step: the extracted transaction, the
  inputs, the outputs, the two sums and the details.
\<close>

lemma lbtc_hex: "b2h_rev lbtc_asset_bytes = lbtc_asset"
  by (simp add: b2h_rev_def b2h_def lbtc_asset_bytes_def lbtc_asset_def hex_char_def)

lemma toy_policy_asset: "get_policy_asset (get_network_parameters toy_session) = lbtc_asset"
  by (simp add: toy_session_def liquid_params_def lbtc_asset_def)

lemma toy_multisig: "\<not> is_electrum (get_network_parameters toy_session)"
  by (simp add: toy_session_def liquid_params_def)

lemma toy_session_update:
  "update_tx_info toy_session tx r = Inr (r(''calculated_fee_rate'' \<mapsto> JNum 1000))"
  "tx_to_hex toy_session tx = ''0200''"
  "b2h_rev (tx_get_txid toy_session tx) = ''0201''"
  by (simp_all add: toy_session_def b2h_rev_def b2h_def hex_char_def)

lemma toy_update_keeps_error:
  "\<forall>tx r r'. update_tx_info toy_session tx r = Inr r' \<longrightarrow> r' ''error'' = r ''error''"
  by (auto simp: toy_session_update)

lemmas psbt_eval = wallet_psbt_input_def foreign_psbt_input_def missing_proof_input_def
  wallet_psbt_output_def fee_psbt_output_def

lemma sample_liquid:
  "m_psbt_is_liquid sample_pset" "m_psbt_is_liquid unbalanced_pset"
  "m_psbt_is_liquid missing_proof_pset"
  by (simp_all add: sample_pset_def unbalanced_pset_def missing_proof_pset_def)

lemma sample_extract:
  "Psbt_extract toy_wally sample_pset = Inr sample_tx0"
  "Psbt_extract toy_wally unbalanced_pset = Inr unbalanced_tx0"
  "Psbt_extract toy_wally missing_proof_pset = Inr sample_tx0"
  by (simp_all add: Psbt_extract_def toy_wally_def sample_pset_def unbalanced_pset_def
      missing_proof_pset_def sample_tx0_def unbalanced_tx0_def psbt_eval
      WALLY_PSBT_EXTRACT_OPT_FINAL_def)

lemmas in_eval = input_to_json_step_def toy_session_def j_strref_def b2h_rev_def b2h_def
  hex_char_def find_wallet_utxo_def sample_utxos_def wallet_utxo_json_def j_uint32ref_def
  ensure_input_utxo_def wally_psbt_get_input_best_utxo_def wallet_input_to_json_def
  j_assetref_def non_wallet_input_to_json_def in_redeem_script_def tx_get_input_def
  sample_wallet_input_json_def psbt_eval Let_def

lemma sample_inputs:
  "inputs_to_json toy_wally toy_session sample_pset sample_tx0 sample_utxos
     = Inr (sample_inputs_json, {lbtc_asset}, sample_tx1, m_psbt sample_pset)"
  by (simp add: inputs_to_json_def get_num_inputs_def sample_pset_def upt_rec sample_tx0_def
       sample_tx1_def sample_inputs_json_def in_eval)

lemma unbalanced_inputs:
  "inputs_to_json toy_wally toy_session unbalanced_pset unbalanced_tx0 sample_utxos
     = Inr ([sample_wallet_input_json], {lbtc_asset}, unbalanced_tx1, m_psbt unbalanced_pset)"
  by (simp add: inputs_to_json_def get_num_inputs_def unbalanced_pset_def upt_rec
       unbalanced_tx0_def unbalanced_tx1_def in_eval)

lemma missing_proof_inputs:
  "inputs_to_json toy_wally toy_session missing_proof_pset sample_tx0 sample_utxos
     = Inl (user_error ''asset_blind_proof not found'')"
  by (simp add: inputs_to_json_def get_num_inputs_def missing_proof_pset_def upt_rec
       sample_tx0_def in_eval set_pset_field_def in_explicit_asset_def in_value_proof_def
       in_asset_proof_def)

lemmas out_eval = output_to_json_step_def get_output_def output_fields_to_json_def
  liquid_output_fields_to_json_def blinded_output_fields_to_json_def set_pset_field_def
  toy_wally_def toy_session_def wallet_psbt_output_def fee_psbt_output_def blinded_fields_def
  out_value_commitment_def out_asset_def out_asset_commitment_def out_value_rangeproof_def
  out_asset_surjection_proof_def out_blinding_pubkey_def out_ecdh_pubkey_def
  out_blind_value_proof_def out_blind_asset_proof_def WALLY_PSET_BLINDED_NONE_def
  WALLY_PSET_BLINDED_FULL_def lbtc_hex b2h_def hex_char_def output_owner_to_json_def
  output_confidential_to_json_def j_assetref_def j_strref_def wallet_script_def
  liquid_params_def Let_def

lemma sample_step0:
  "output_to_json_step toy_wally toy_session sample_pset sample_tx1 0
     = Inr (sample_wallet_output_json, Some (lbtc_asset, True))"
  "output_to_json_step toy_wally toy_session unbalanced_pset unbalanced_tx1 0
     = Inr (sample_wallet_output_json, Some (lbtc_asset, True))"
  by (simp_all add: sample_pset_def unbalanced_pset_def unbalanced_tx1_def unbalanced_tx0_def
        sample_tx1_def sample_tx0_def sample_wallet_output_json_def out_eval)

lemma sample_step1:
  "output_to_json_step toy_wally toy_session sample_pset sample_tx1 (Suc 0)
     = Inr (sample_fee_output_json, None)"
  "output_to_json_step toy_wally toy_session unbalanced_pset unbalanced_tx1 (Suc 0)
     = Inr (sample_fee_output_json, None)"
  by (simp_all add: sample_pset_def unbalanced_pset_def unbalanced_tx1_def unbalanced_tx0_def
        sample_tx1_def sample_tx0_def sample_fee_output_json_def out_eval)

lemma sample_num_outputs:
  "get_num_outputs sample_pset = 2" "get_num_outputs unbalanced_pset = 2"
  by (simp_all add: get_num_outputs_def sample_pset_def unbalanced_pset_def)

lemma sample_outputs:
  "outputs_to_json toy_wally toy_session sample_pset sample_tx1 {lbtc_asset}
     = Inr sample_outputs_json"
  by (simp add: outputs_to_json_def sample_num_outputs upt_rec sample_step0 sample_step1
       collect_change_def mark_change_def toy_multisig sample_outputs_json_def)

lemma unbalanced_outputs:
  "outputs_to_json toy_wally toy_session unbalanced_pset unbalanced_tx1 {lbtc_asset}
     = Inr sample_outputs_json"
  by (simp add: outputs_to_json_def sample_num_outputs upt_rec sample_step0 sample_step1
       collect_change_def mark_change_def toy_multisig sample_outputs_json_def)

lemmas sum_eval = sample_wallet_input_json_def sample_wallet_output_json_def
  sample_fee_output_json_def j_str_is_empty_def j_str_or_empty_def j_bool_or_false_def
  j_assetref_def j_strref_def j_amountref_def

lemma sample_sum_inputs:
  "sum_inputs True lbtc_asset sample_inputs_json (0, [], False)
     = Inr (1000, ''failed to unblind utxo'', False)"
  by (simp add: sample_inputs_json_def sum_eval)

lemma unbalanced_sum_inputs:
  "sum_inputs True lbtc_asset [sample_wallet_input_json] (0, [], False) = Inr (1000, [], False)"
  by (simp add: sum_eval)

lemma sample_sum_outputs:
  "sum_outputs True lbtc_asset sample_outputs_json (1000, 0) = Inr (100, 150)"
  by (simp add: sample_outputs_json_def sum_eval)

lemma sample_get_details:
  "get_details toy_wally toy_session sample_pset sample_request
     = Inr (sample_details, sample_pset)"
  unfolding get_details_def Let_def
  by (simp add: sample_request_def sample_extract sample_inputs sample_outputs toy_policy_asset
     sample_sum_inputs sample_sum_outputs sample_liquid toy_session_update j_uint32ref_def
     sample_details_def)

lemma missing_proof_get_details:
  "get_details toy_wally toy_session missing_proof_pset sample_request
     = Inl (user_error ''asset_blind_proof not found'')"
  unfolding get_details_def Let_def
  by (simp add: sample_request_def sample_extract missing_proof_inputs)

lemmas reading_eval = input_error_def input_skip_signing_def satoshi_of_def asset_of_def
  is_fee_output_def policy_inputs_sum_def policy_outputs_sum_def fee_outputs_sum_def

lemma sample_readings:
  "input_error (sample_inputs_json ! 0) = []"
  "input_error (sample_inputs_json ! 1) = ''failed to unblind utxo''"
  "input_skip_signing (sample_inputs_json ! 1)"
  "policy_inputs_sum lbtc_asset sample_inputs_json = 1000"
  "policy_inputs_sum lbtc_asset [sample_wallet_input_json] = 1000"
  "policy_outputs_sum lbtc_asset sample_outputs_json = 900"
  "fee_outputs_sum lbtc_asset sample_outputs_json = 150"
  by (simp_all add: sample_inputs_json_def sample_outputs_json_def reading_eval sum_eval)

lemma change_extract: "Psbt_extract toy_wally change_pset = Inr change_tx0"
  by (simp add: Psbt_extract_def toy_wally_def change_pset_def change_tx0_def psbt_eval
      WALLY_PSBT_EXTRACT_OPT_FINAL_def)













subsection \<open>The multisig change heuristic\<close>




subsection \<open>The fee assertion on Liquid\<close>

lemma last_input_error_Cons:
  "last_input_error (x # xs) =
     (if \<exists>j\<in>set xs. input_error j \<noteq> [] then last_input_error xs else input_error x)"
proof (cases "\<exists>j\<in>set xs. input_error j \<noteq> []")
  case True
  then have "filter (\<lambda>e. e \<noteq> []) (map input_error xs) \<noteq> []"
    by (auto simp: filter_empty_conv)
  with True show ?thesis
    by (auto simp: last_input_error_def split: list.splits)
next
  case False
  then have "filter (\<lambda>e. e \<noteq> []) (map input_error xs) = []"
    by (auto simp: filter_empty_conv)
  with False show ?thesis
    by (simp add: last_input_error_def)
qed

lemma sum_inputs_errors:
  assumes "sum_inputs liquid policy_asset inputs (s0, e0, u0) = Inr (s, e, u)"
  shows "e = (if \<exists>j\<in>set inputs. input_error j \<noteq> [] then last_input_error inputs else e0)
     \<and> (u \<longleftrightarrow> u0 \<or> (\<exists>j\<in>set inputs. input_error j \<noteq> [] \<and> \<not> input_skip_signing j))"
  using assms
proof (induction inputs arbitrary: s0 e0 u0)
  case Nil
  then show ?case by simp
next
  case (Cons input rest)
  from Cons.prems obtain txin_error where
    err: "j_str_or_empty (JObj input) ''error'' = Inr txin_error"
    by (auto simp: bind_result_eq_Inr)
  then have ie: "input_error input = txin_error" by (simp add: input_error_def)
  show ?case
  proof (cases "txin_error = []")
    case False
    with Cons.prems err obtain skip where
      sk: "j_bool_or_false (JObj input) ''skip_signing'' = Inr skip"
      and r: "sum_inputs liquid policy_asset rest (s0, txin_error, if \<not> skip then True else u0)
                = Inr (s, e, u)"
      by (auto simp: bind_result_eq_Inr)
    from sk have iss: "input_skip_signing input = skip" by (auto simp: input_skip_signing_def)
    from Cons.IH [OF r] False ie iss show ?thesis
      by (auto simp: last_input_error_Cons)
  next
    case True
    with Cons.prems err obtain s1 where
      r: "sum_inputs liquid policy_asset rest (s1, e0, u0) = Inr (s, e, u)"
      by (auto simp: bind_result_eq_Inr split: if_splits)
    from Cons.IH [OF r] True ie show ?thesis
      by (auto simp: last_input_error_Cons)
  qed
qed

text \<open>
  Claim C1.  On Liquid, whenever \<open>get_details\<close> succeeds, the policy asset amounts of
  the inputs without an error, minus those of the outputs other than the fee, equal
  the amounts of the fee outputs (in the arithmetic of unsigned 64 bit integers), or
  some input carries an error, skipped when signing or not.  And when the enrichment
  and the two sums go through, the equality fails and no input carries an error, the
  call fails the assertion.
\<close>

theorem liquid_fee_assertion:
  assumes liquid: "m_psbt_is_liquid this"
  shows "(get_details w session this details = Inr (result, this') \<longrightarrow>
           (\<exists>tx0 utxos inputs wallet_assets tx outputs.
              Psbt_extract w this = Inr tx0 \<and> details ''utxos'' = Some utxos
              \<and> inputs_to_json w session this tx0 utxos
                  = Inr (inputs, wallet_assets, tx, m_psbt this')
              \<and> outputs_to_json w session this' tx wallet_assets = Inr outputs
              \<and> (policy_inputs_sum (get_policy_asset (get_network_parameters session)) inputs
                    - policy_outputs_sum (get_policy_asset (get_network_parameters session)) outputs
                  = fee_outputs_sum (get_policy_asset (get_network_parameters session)) outputs
                  \<or> (\<exists>j\<in>set inputs. input_error j \<noteq> []))))
       \<and> (Psbt_extract w this = Inr tx1 \<and> details ''utxos'' = Some utxos1
          \<and> inputs_to_json w session this tx1 utxos1 = Inr (inputs1, wallet_assets1, tx2, psbt1)
          \<and> outputs_to_json w session (this\<lparr>m_psbt := psbt1\<rparr>) tx2 wallet_assets1 = Inr outputs1
          \<and> sum_inputs True (get_policy_asset (get_network_parameters session)) inputs1
                (0, [], False) = Inr acc_in
          \<and> sum_outputs True (get_policy_asset (get_network_parameters session)) outputs1
                (fst acc_in, 0) = Inr acc_out
          \<and> policy_inputs_sum (get_policy_asset (get_network_parameters session)) inputs1
                - policy_outputs_sum (get_policy_asset (get_network_parameters session)) outputs1
              \<noteq> fee_outputs_sum (get_policy_asset (get_network_parameters session)) outputs1
          \<and> (\<forall>j\<in>set inputs1. input_error j = [])
          \<longrightarrow> get_details w session this details = Inl assertion_error)"
proof (intro conjI impI)
  let ?P = "get_policy_asset (get_network_parameters session)"
  assume ok: "get_details w session this details = Inr (result, this')"
  from get_details_Inr [OF ok] obtain tx0 utxos inputs wallet_assets tx psbt outputs
    inputs_total error use_error running explicit_fee where
    a: "Psbt_extract w this = Inr tx0" "details ''utxos'' = Some utxos"
       "inputs_to_json w session this tx0 utxos = Inr (inputs, wallet_assets, tx, psbt)"
       "this' = this\<lparr>m_psbt := psbt\<rparr>"
       "outputs_to_json w session this' tx wallet_assets = Inr outputs"
    and si: "sum_inputs (m_psbt_is_liquid this) ?P inputs (0, [], False)
               = Inr (inputs_total, error, use_error)"
    and so: "sum_outputs (m_psbt_is_liquid this) ?P outputs (inputs_total, 0)
               = Inr (running, explicit_fee)"
    and as: "\<not> m_psbt_is_liquid this \<or> running = explicit_fee \<or> error \<noteq> []"
    by metis
  from sum_inputs_liquid [OF si [unfolded liquid eqTrueI [OF liquid]]]
  have t: "inputs_total = policy_inputs_sum ?P inputs"
    and e: "error \<noteq> [] \<longleftrightarrow> (\<exists>j\<in>set inputs. input_error j \<noteq> [])" using liquid by simp_all
  from so liquid have "sum_outputs True ?P outputs (inputs_total, 0) = Inr (running, explicit_fee)"
    by simp
  from sum_outputs_liquid [OF this]
  have r: "running = inputs_total - policy_outputs_sum ?P outputs"
    and f: "explicit_fee = fee_outputs_sum ?P outputs" by simp_all
  from as liquid t e r f have
    "policy_inputs_sum ?P inputs - policy_outputs_sum ?P outputs = fee_outputs_sum ?P outputs
       \<or> (\<exists>j\<in>set inputs. input_error j \<noteq> [])" by auto
  moreover from a(4) have "m_psbt this' = psbt" by simp
  ultimately show "\<exists>tx0 utxos inputs wallet_assets tx outputs.
              Psbt_extract w this = Inr tx0 \<and> details ''utxos'' = Some utxos
              \<and> inputs_to_json w session this tx0 utxos
                  = Inr (inputs, wallet_assets, tx, m_psbt this')
              \<and> outputs_to_json w session this' tx wallet_assets = Inr outputs
              \<and> (policy_inputs_sum ?P inputs - policy_outputs_sum ?P outputs
                  = fee_outputs_sum ?P outputs
                  \<or> (\<exists>j\<in>set inputs. input_error j \<noteq> []))"
    using a by blast
next
  let ?P = "get_policy_asset (get_network_parameters session)"
  assume h: "Psbt_extract w this = Inr tx1 \<and> details ''utxos'' = Some utxos1
          \<and> inputs_to_json w session this tx1 utxos1 = Inr (inputs1, wallet_assets1, tx2, psbt1)
          \<and> outputs_to_json w session (this\<lparr>m_psbt := psbt1\<rparr>) tx2 wallet_assets1 = Inr outputs1
          \<and> sum_inputs True ?P inputs1 (0, [], False) = Inr acc_in
          \<and> sum_outputs True ?P outputs1 (fst acc_in, 0) = Inr acc_out
          \<and> policy_inputs_sum ?P inputs1 - policy_outputs_sum ?P outputs1
              \<noteq> fee_outputs_sum ?P outputs1
          \<and> (\<forall>j\<in>set inputs1. input_error j = [])"
  obtain t e u where ai: "acc_in = (t, e, u)" by (cases acc_in)
  obtain r f where ao: "acc_out = (r, f)" by (cases acc_out)
  from h ai have si: "sum_inputs True ?P inputs1 (0, [], False) = Inr (t, e, u)" by simp
  from h ai ao have so: "sum_outputs True ?P outputs1 (t, 0) = Inr (r, f)" by simp
  from sum_inputs_liquid [OF si] h have t: "t = policy_inputs_sum ?P inputs1" and e: "e = []"
    by auto
  from sum_outputs_liquid [OF so] have r: "r = t - policy_outputs_sum ?P outputs1"
    and f: "f = fee_outputs_sum ?P outputs1" by simp_all
  from h t r f have ne: "r \<noteq> f" by simp
  from h have h1: "Psbt_extract w this = Inr tx1" and h2: "details ''utxos'' = Some utxos1"
    and h3: "inputs_to_json w session this tx1 utxos1 = Inr (inputs1, wallet_assets1, tx2, psbt1)"
    and h4: "outputs_to_json w session (this\<lparr>m_psbt := psbt1\<rparr>) tx2 wallet_assets1 = Inr outputs1"
    by simp_all
  show "get_details w session this details = Inl assertion_error"
    unfolding get_details_def Let_def
    by (simp add: h1 h2 h3 h4 liquid si so ne e)
qed

theorem liquid_fee_assertion_witness:
  "get_details toy_wally toy_session sample_pset sample_request
     = Inr (sample_details, sample_pset)
   \<and> (\<exists>j\<in>set sample_inputs_json. input_error j \<noteq> [])
   \<and> policy_inputs_sum lbtc_asset [sample_wallet_input_json]
       - policy_outputs_sum lbtc_asset sample_outputs_json
       \<noteq> fee_outputs_sum lbtc_asset sample_outputs_json
   \<and> get_details toy_wally toy_session unbalanced_pset sample_request = Inl assertion_error"
proof -
  from liquid_fee_assertion [OF sample_liquid(1), THEN conjunct1, rule_format,
      OF sample_get_details]
  have a: "\<exists>j\<in>set sample_inputs_json. input_error j \<noteq> []"
    by (auto simp: sample_extract sample_request_def sample_inputs sample_outputs
          sample_readings toy_policy_asset)
  have ne: "policy_inputs_sum lbtc_asset [sample_wallet_input_json]
       - policy_outputs_sum lbtc_asset sample_outputs_json
       \<noteq> fee_outputs_sum lbtc_asset sample_outputs_json"
    by (simp add: sample_readings)
  have noerr: "\<forall>j\<in>set [sample_wallet_input_json]. input_error j = []"
    by (simp add: reading_eval sum_eval)
  have b: "get_details toy_wally toy_session unbalanced_pset sample_request
             = Inl assertion_error"
  proof (rule liquid_fee_assertion [OF sample_liquid(2), THEN conjunct2, rule_format,
        where ?tx1.0 = unbalanced_tx0 and ?utxos1.0 = sample_utxos
          and ?inputs1.0 = "[sample_wallet_input_json]" and ?wallet_assets1.0 = "{lbtc_asset}"
          and ?tx2.0 = unbalanced_tx1 and ?psbt1.0 = "m_psbt unbalanced_pset"
          and ?outputs1.0 = sample_outputs_json and acc_in = "(1000, [], False)"
          and acc_out = "(100, 150)"], intro conjI)
    show "Psbt_extract toy_wally unbalanced_pset = Inr unbalanced_tx0"
      by (rule sample_extract)
    show "sample_request ''utxos'' = Some sample_utxos"
      by (simp add: sample_request_def)
    show "inputs_to_json toy_wally toy_session unbalanced_pset unbalanced_tx0 sample_utxos
       = Inr ([sample_wallet_input_json], {lbtc_asset}, unbalanced_tx1, m_psbt unbalanced_pset)"
      by (rule unbalanced_inputs)
    show "outputs_to_json toy_wally toy_session
            (unbalanced_pset\<lparr>m_psbt := m_psbt unbalanced_pset\<rparr>) unbalanced_tx1 {lbtc_asset}
          = Inr sample_outputs_json"
      by (simp add: unbalanced_outputs)
    show "sum_inputs True (get_policy_asset (get_network_parameters toy_session))
            [sample_wallet_input_json] (0, [], False) = Inr (1000, [], False)"
      unfolding toy_policy_asset by (rule unbalanced_sum_inputs)
    show "sum_outputs True (get_policy_asset (get_network_parameters toy_session))
            sample_outputs_json (fst (1000, [], False), 0) = Inr (100, 150)"
      unfolding toy_policy_asset fst_conv by (rule sample_sum_outputs)
    show "policy_inputs_sum (get_policy_asset (get_network_parameters toy_session))
            [sample_wallet_input_json]
          - policy_outputs_sum (get_policy_asset (get_network_parameters toy_session))
              sample_outputs_json
          \<noteq> fee_outputs_sum (get_policy_asset (get_network_parameters toy_session))
              sample_outputs_json"
      unfolding toy_policy_asset by (rule ne)
    show "\<forall>j\<in>set [sample_wallet_input_json]. input_error j = []"
      by (rule noerr)
  qed
  from sample_get_details a ne b show ?thesis by blast
qed

text \<open>
  Claim C1 as the spec states it lets only an error on an input that is not skipped
  excuse a mismatch.  On the sample PSET the call succeeds without a top level error,
  1000 - 900 is not the fee of 150, and the only input with an error, input 1, is
  skipped when signing.
\<close>

theorem skipped_input_error_excuses_mismatch_counterexample:
  "m_psbt_is_liquid sample_pset
   \<and> get_details toy_wally toy_session sample_pset sample_request
       = Inr (sample_details, sample_pset)
   \<and> sample_details ''transaction_inputs'' = Some (JArr (map JObj sample_inputs_json))
   \<and> sample_details ''transaction_outputs'' = Some (JArr (map JObj sample_outputs_json))
   \<and> sample_details ''error'' = None
   \<and> get_policy_asset (get_network_parameters toy_session) = lbtc_asset
   \<and> policy_inputs_sum lbtc_asset sample_inputs_json = 1000
   \<and> policy_outputs_sum lbtc_asset sample_outputs_json = 900
   \<and> fee_outputs_sum lbtc_asset sample_outputs_json = 150
   \<and> length sample_inputs_json = 2
   \<and> input_error (sample_inputs_json ! 0) = []
   \<and> input_error (sample_inputs_json ! 1) = ''failed to unblind utxo''
   \<and> input_skip_signing (sample_inputs_json ! 1)"
  by (simp add: sample_liquid sample_get_details toy_policy_asset sample_readings)
     (simp add: sample_details_def sample_inputs_json_def reading_eval sum_eval)

subsection \<open>Inputs that are not the wallet's\<close>

lemma non_wallet_input_missing_field:
  assumes "psbt_in_has_amount psbt_input"
    and "psbt_in_pset_fields psbt_input in_explicit_asset = None
         \<or> psbt_in_pset_fields psbt_input in_value_proof = None
         \<or> psbt_in_pset_fields psbt_input in_asset_proof = None"
  shows "non_wallet_input_to_json True psbt_input txin_utxo utxo0
           \<in> {Inl (user_error ''asset_id not found''),
              Inl (user_error ''value_blind_proof not found''),
              Inl (user_error ''asset_blind_proof not found'')}"
  using assms
  by (auto simp: non_wallet_input_to_json_def Let_def set_pset_field_def split: option.splits)

lemma sample_foreign_input:
  "is_non_wallet_input toy_session sample_utxos foreign_psbt_input (tx_inputs sample_tx0 ! 1)"
  "is_non_wallet_input toy_session sample_utxos missing_proof_input (tx_inputs sample_tx0 ! 1)"
  by (simp_all add: is_non_wallet_input_def sample_tx0_def in_eval)

text \<open>
  Claim C3.  Whenever \<open>get_details\<close> succeeds, every input that is not the wallet's has
  \<open>skip_signing\<close> true; on Liquid such an input without \<open>has_amount\<close> carries the error
  \<open>failed to unblind utxo\<close>, and such an input with \<open>has_amount\<close> has the explicit asset,
  the value proof and the asset proof (with one of them absent the call does not
  succeed: \<open>set_pset_field\<close> throws, see \<open>non_wallet_input_missing_field\<close>).  With an
  \<open>update_tx_info\<close> that leaves the key \<open>error\<close> alone, the result has a top level
  \<open>error\<close> exactly when some input has an error and is not skipped when signing, and
  it is the error of the last input that has one.
\<close>

theorem non_wallet_inputs_marked:
  assumes ok: "get_details w session this details = Inr (result, this')"
    and upd: "\<forall>tx r r'. update_tx_info session tx r = Inr r' \<longrightarrow> r' ''error'' = r ''error''"
  shows "\<exists>tx0 utxos inputs wallet_assets tx.
      Psbt_extract w this = Inr tx0 \<and> details ''utxos'' = Some utxos
      \<and> inputs_to_json w session this tx0 utxos = Inr (inputs, wallet_assets, tx, m_psbt this')
      \<and> length inputs = get_num_inputs this
      \<and> (\<forall>i<get_num_inputs this.
            is_non_wallet_input session utxos (psbt_inputs (m_psbt this) ! i) (tx_inputs tx0 ! i)
            \<longrightarrow> (inputs ! i) ''skip_signing'' = Some (JBool True)
                \<and> (m_psbt_is_liquid this \<longrightarrow>
                     (if psbt_in_has_amount (psbt_inputs (m_psbt this) ! i)
                      then psbt_in_pset_fields (psbt_inputs (m_psbt this) ! i) in_explicit_asset \<noteq> None
                         \<and> psbt_in_pset_fields (psbt_inputs (m_psbt this) ! i) in_value_proof \<noteq> None
                         \<and> psbt_in_pset_fields (psbt_inputs (m_psbt this) ! i) in_asset_proof \<noteq> None
                      else (inputs ! i) ''error'' = Some (JStr ''failed to unblind utxo''))))
      \<and> result ''error''
          = (if \<exists>j\<in>set inputs. input_error j \<noteq> [] \<and> \<not> input_skip_signing j
             then Some (JStr (last_input_error inputs)) else None)"
proof (rule get_details_Inr [OF ok])
  let ?P = "get_policy_asset (get_network_parameters session)"
  fix tx0 utxos inputs wallet_assets tx psbt outputs inputs_total error use_error
    running explicit_fee result0 result1
  assume a: "Psbt_extract w this = Inr tx0" "details ''utxos'' = Some utxos"
       "inputs_to_json w session this tx0 utxos = Inr (inputs, wallet_assets, tx, psbt)"
       "this' = this\<lparr>m_psbt := psbt\<rparr>"
    and "outputs_to_json w session this' tx wallet_assets = Inr outputs"
    and si: "sum_inputs (m_psbt_is_liquid this) ?P inputs (0, [], False)
               = Inr (inputs_total, error, use_error)"
    and "sum_outputs (m_psbt_is_liquid this) ?P outputs (inputs_total, 0)
               = Inr (running, explicit_fee)"
    and "\<not> m_psbt_is_liquid this \<or> running = explicit_fee \<or> error \<noteq> []"
    and u: "update_tx_info session tx result0 = Inr result1"
    and res: "result ''error'' = (if use_error \<and> result1 ''error'' = None then Some (JStr error)
                         else result1 ''error'')"
    and r0: "result0 ''error'' = None"
  let ?n = "get_num_inputs this"
  note ch = inputs_to_json_char [OF a(3)]
  from ch have len: "length inputs = ?n" by simp
  have each: "\<forall>i<?n.
            is_non_wallet_input session utxos (psbt_inputs (m_psbt this) ! i) (tx_inputs tx0 ! i)
            \<longrightarrow> (inputs ! i) ''skip_signing'' = Some (JBool True)
                \<and> (m_psbt_is_liquid this \<longrightarrow>
                     (if psbt_in_has_amount (psbt_inputs (m_psbt this) ! i)
                      then psbt_in_pset_fields (psbt_inputs (m_psbt this) ! i) in_explicit_asset \<noteq> None
                         \<and> psbt_in_pset_fields (psbt_inputs (m_psbt this) ! i) in_value_proof \<noteq> None
                         \<and> psbt_in_pset_fields (psbt_inputs (m_psbt this) ! i) in_asset_proof \<noteq> None
                      else (inputs ! i) ''error'' = Some (JStr ''failed to unblind utxo'')))"
  proof (intro allI impI)
    fix i assume i: "i < ?n"
    let ?pi = "psbt_inputs (m_psbt this) ! i" and ?txin = "tx_inputs tx0 ! i"
    assume nw: "is_non_wallet_input session utxos ?pi ?txin"
    then obtain txhash_hex where
      h: "j_strref (JObj (input_to_json session ?txin)) ''txhash'' = Inr txhash_hex"
      and f: "find_wallet_utxo utxos txhash_hex (psbt_in_index ?pi) = Inr None"
      by (auto simp: is_non_wallet_input_def split: sum.splits)
    from ch i obtain asset where
      st: "input_to_json_step w session (m_psbt_is_liquid this) utxos ?pi ?txin
             = Inr (inputs ! i, asset, tx_inputs tx ! i, psbt_inputs psbt ! i)"
      by blast
    from input_to_json_step_non_wallet [OF st h f] obtain txin_utxo pi2 where
      n: "non_wallet_input_to_json (m_psbt_is_liquid this) pi2 txin_utxo
            (input_to_json session ?txin) = Inr (inputs ! i)"
      and ha: "psbt_in_has_amount pi2 = psbt_in_has_amount ?pi"
      and fl: "psbt_in_pset_fields pi2 = psbt_in_pset_fields ?pi"
      by blast
    from non_wallet_input_skip_signing [OF n]
    have sk: "(inputs ! i) ''skip_signing'' = Some (JBool True)" .
    have "m_psbt_is_liquid this \<longrightarrow>
                     (if psbt_in_has_amount ?pi
                      then psbt_in_pset_fields ?pi in_explicit_asset \<noteq> None
                         \<and> psbt_in_pset_fields ?pi in_value_proof \<noteq> None
                         \<and> psbt_in_pset_fields ?pi in_asset_proof \<noteq> None
                      else (inputs ! i) ''error'' = Some (JStr ''failed to unblind utxo''))"
    proof
      assume "m_psbt_is_liquid this"
      with n have n': "non_wallet_input_to_json True pi2 txin_utxo
            (input_to_json session ?txin) = Inr (inputs ! i)" by simp
      show "if psbt_in_has_amount ?pi
                      then psbt_in_pset_fields ?pi in_explicit_asset \<noteq> None
                         \<and> psbt_in_pset_fields ?pi in_value_proof \<noteq> None
                         \<and> psbt_in_pset_fields ?pi in_asset_proof \<noteq> None
                      else (inputs ! i) ''error'' = Some (JStr ''failed to unblind utxo'')"
      proof (cases "psbt_in_has_amount ?pi")
        case True
        with ha have "psbt_in_has_amount pi2" by simp
        from non_wallet_input_with_amount [OF n' this] fl True show ?thesis by simp
      next
        case False
        with ha have "\<not> psbt_in_has_amount pi2" by simp
        from non_wallet_input_no_amount [OF n' this] False show ?thesis by simp
      qed
    qed
    with sk show "(inputs ! i) ''skip_signing'' = Some (JBool True)
                \<and> (m_psbt_is_liquid this \<longrightarrow>
                     (if psbt_in_has_amount ?pi
                      then psbt_in_pset_fields ?pi in_explicit_asset \<noteq> None
                         \<and> psbt_in_pset_fields ?pi in_value_proof \<noteq> None
                         \<and> psbt_in_pset_fields ?pi in_asset_proof \<noteq> None
                      else (inputs ! i) ''error'' = Some (JStr ''failed to unblind utxo'')))"
      by simp
  qed
  from upd u have "result1 ''error'' = result0 ''error''" by blast
  with r0 have r1: "result1 ''error'' = None" by simp
  from sum_inputs_errors [OF si] have
    e: "error = (if \<exists>j\<in>set inputs. input_error j \<noteq> [] then last_input_error inputs else [])"
    and ue: "use_error \<longleftrightarrow> (\<exists>j\<in>set inputs. input_error j \<noteq> [] \<and> \<not> input_skip_signing j)"
    by simp_all
  from res r1 e ue have top: "result ''error''
          = (if \<exists>j\<in>set inputs. input_error j \<noteq> [] \<and> \<not> input_skip_signing j
             then Some (JStr (last_input_error inputs)) else None)"
    by auto
  from a(4) have "m_psbt this' = psbt" by simp
  with a(1-3) have "Psbt_extract w this = Inr tx0 \<and> details ''utxos'' = Some utxos
      \<and> inputs_to_json w session this tx0 utxos = Inr (inputs, wallet_assets, tx, m_psbt this')"
    by simp
  with len each top show ?thesis by blast
qed

theorem non_wallet_inputs_marked_witness:
  "get_details toy_wally toy_session sample_pset sample_request
     = Inr (sample_details, sample_pset)
   \<and> is_non_wallet_input toy_session sample_utxos
        (psbt_inputs (m_psbt sample_pset) ! 1) (tx_inputs sample_tx0 ! 1)
   \<and> (sample_inputs_json ! 1) ''skip_signing'' = Some (JBool True)
   \<and> (sample_inputs_json ! 1) ''error'' = Some (JStr ''failed to unblind utxo'')
   \<and> sample_details ''error'' = None"
proof -
  have p1: "psbt_inputs (m_psbt sample_pset) ! 1 = foreign_psbt_input"
    by (simp add: sample_pset_def)
  have n: "get_num_inputs sample_pset = 2"
    by (simp add: get_num_inputs_def sample_pset_def)
  have noamount: "\<not> psbt_in_has_amount foreign_psbt_input"
    by (simp add: foreign_psbt_input_def)
  have skipped: "\<not> (\<exists>j\<in>set sample_inputs_json. input_error j \<noteq> [] \<and> \<not> input_skip_signing j)"
    by (simp add: sample_inputs_json_def reading_eval sum_eval)
  from non_wallet_inputs_marked [OF sample_get_details toy_update_keeps_error]
  obtain inputs where
    each: "\<forall>i<2.
            is_non_wallet_input toy_session sample_utxos (psbt_inputs (m_psbt sample_pset) ! i)
              (tx_inputs sample_tx0 ! i)
            \<longrightarrow> (inputs ! i) ''skip_signing'' = Some (JBool True)
                \<and> (m_psbt_is_liquid sample_pset \<longrightarrow>
                     (if psbt_in_has_amount (psbt_inputs (m_psbt sample_pset) ! i)
                      then psbt_in_pset_fields (psbt_inputs (m_psbt sample_pset) ! i) in_explicit_asset \<noteq> None
                         \<and> psbt_in_pset_fields (psbt_inputs (m_psbt sample_pset) ! i) in_value_proof \<noteq> None
                         \<and> psbt_in_pset_fields (psbt_inputs (m_psbt sample_pset) ! i) in_asset_proof \<noteq> None
                      else (inputs ! i) ''error'' = Some (JStr ''failed to unblind utxo'')))"
    and top: "sample_details ''error''
          = (if \<exists>j\<in>set inputs. input_error j \<noteq> [] \<and> \<not> input_skip_signing j
             then Some (JStr (last_input_error inputs)) else None)"
    and inputs: "inputs = sample_inputs_json"
    unfolding n by (auto simp: sample_extract sample_request_def sample_inputs)
  from each [rule_format, of 1] sample_foreign_input(1) p1 sample_liquid(1) noamount inputs
  have a: "(sample_inputs_json ! 1) ''skip_signing'' = Some (JBool True)"
    and b: "(sample_inputs_json ! 1) ''error'' = Some (JStr ''failed to unblind utxo'')"
    by simp_all
  from top inputs skipped have c: "sample_details ''error'' = None" by simp
  from sample_get_details sample_foreign_input(1) p1 a b c show ?thesis by simp
qed

text \<open>
  Claim C3 as the spec states it has the call succeed, with the input marked, also
  when one of the three PSET fields is absent.  The second input of this PSET is not
  the wallet's and has an explicit amount, the explicit asset and the value proof,
  and no asset proof: the call fails with a user error.
\<close>

theorem missing_asset_proof_throws_counterexample:
  "m_psbt_is_liquid missing_proof_pset
   \<and> get_input missing_proof_pset 1 = Inr missing_proof_input
   \<and> is_non_wallet_input toy_session sample_utxos missing_proof_input (tx_inputs sample_tx0 ! 1)
   \<and> Psbt_extract toy_wally missing_proof_pset = Inr sample_tx0
   \<and> psbt_in_has_amount missing_proof_input
   \<and> psbt_in_pset_fields missing_proof_input in_explicit_asset \<noteq> None
   \<and> psbt_in_pset_fields missing_proof_input in_value_proof \<noteq> None
   \<and> psbt_in_pset_fields missing_proof_input in_asset_proof = None
   \<and> get_details toy_wally toy_session missing_proof_pset sample_request
       = Inl (user_error ''asset_blind_proof not found'')"
proof -
  have a: "get_input missing_proof_pset 1 = Inr missing_proof_input"
    by (simp add: get_input_def missing_proof_pset_def)
  have b: "psbt_in_has_amount missing_proof_input"
    "psbt_in_pset_fields missing_proof_input in_explicit_asset \<noteq> None"
    "psbt_in_pset_fields missing_proof_input in_value_proof \<noteq> None"
    "psbt_in_pset_fields missing_proof_input in_asset_proof = None"
    by (simp_all add: missing_proof_input_def in_explicit_asset_def in_value_proof_def
          in_asset_proof_def)
  from sample_liquid(3) a sample_foreign_input(2) sample_extract(3) b
    missing_proof_get_details
  show ?thesis by blast
qed

end
